theory Spec2Isabelle
  imports Complex_Main "HOL-Library.Sublist" "HOL-Library.Log_Nat"
begin

section \<open>Data model\<close>

text \<open>
  The objects of \<^verbatim>\<open>controllers/pvc_controller.go\<close> and \<^verbatim>\<open>pkg/utils/kube.go\<close>,
  with the fields the modelled functions read or write.

  A \<^verbatim>\<open>resource.Quantity\<close> is an exact decimal number; it is a rational here.
  A Go \<^verbatim>\<open>error\<close> is its message, tagged with what \<^verbatim>\<open>apierrors.IsNotFound\<close> and
  \<^verbatim>\<open>apierrors.IsAlreadyExists\<close> tell apart.
\<close>

type_synonym quantity = rat
type_synonym Time = nat

section \<open>Floating-point numbers\<close>

text \<open>
  A \<^verbatim>\<open>float64\<close> is an IEEE 754 double: a finite value, an infinity or NaN. The
  operations that \<^verbatim>\<open>MonitorVolumes\<close> uses on it round to the nearest double, ties to
  the even mantissa, as the hardware does. The sign of zero is not modelled; the modelled
  code divides by the constant 100 only.
\<close>
datatype float64 = Finite rat | PosInf | NegInf | NaN

text \<open>For \<open>0 < x\<close>, the integer \<open>e\<close> with \<open>2^e \<le> x < 2^(e+1)\<close>.\<close>
definition exponent :: "rat \<Rightarrow> int" where
  "exponent x = (if 1 \<le> x then bitlen \<lfloor>x\<rfloor> - 1 else - bitlen (\<lceil>1 / x\<rceil> - 1))"

text \<open>The nearest integer, ties to the even one.\<close>
definition roundToEven :: "rat \<Rightarrow> int" where
  "roundToEven y =
     (let f = \<lfloor>y\<rfloor>; d = y - of_int f
      in if d < 1 / 2 then f else if 1 / 2 < d then f + 1 else if even f then f else f + 1)"

text \<open>
  The double nearest to a rational: 53 bits of mantissa, the exponent not below -1022
  (below it the spacing stays \<open>2^-1074\<close>), and an infinity from \<open>2^1024\<close> on.
\<close>
definition round64 :: "rat \<Rightarrow> float64" where
  "round64 x =
     (if x = 0 then Finite 0
      else
       (let e = max (exponent \<bar>x\<bar>) (- 1022);
            ulp = 2 powi (e - 52);
            m = of_int (roundToEven (\<bar>x\<bar> / ulp)) * ulp
        in if 2 ^ 1024 \<le> m then (if 0 < x then PosInf else NegInf)
           else Finite (sgn x * m)))"

fun fneg :: "float64 \<Rightarrow> float64" where
  "fneg (Finite x) = Finite (- x)"
| "fneg PosInf = NegInf"
| "fneg NegInf = PosInf"
| "fneg NaN = NaN"

text \<open>The sign of a value that is not NaN: -1, 0 or 1.\<close>
fun fsign :: "float64 \<Rightarrow> int" where
  "fsign (Finite x) = (if x < 0 then - 1 else if x = 0 then 0 else 1)"
| "fsign PosInf = 1"
| "fsign NegInf = - 1"
| "fsign NaN = 0"

text \<open>\<^verbatim>\<open>a * b\<close>.\<close>
fun fmul :: "float64 \<Rightarrow> float64 \<Rightarrow> float64" where
  "fmul NaN b = NaN"
| "fmul a NaN = NaN"
| "fmul (Finite x) (Finite y) = round64 (x * y)"
| "fmul a b =
     (if fsign a * fsign b = 0 then NaN else if 0 < fsign a * fsign b then PosInf else NegInf)"

text \<open>\<^verbatim>\<open>a / b\<close>.\<close>
fun fdiv :: "float64 \<Rightarrow> float64 \<Rightarrow> float64" where
  "fdiv NaN b = NaN"
| "fdiv a NaN = NaN"
| "fdiv (Finite x) (Finite y) =
     (if y = 0 then (if x = 0 then NaN else if 0 < x then PosInf else NegInf)
      else round64 (x / y))"
| "fdiv (Finite x) b = Finite 0"
| "fdiv a (Finite y) = (if 0 \<le> y then a else fneg a)"
| "fdiv a b = NaN"

text \<open>\<^verbatim>\<open>a - b\<close>.\<close>
fun fsub :: "float64 \<Rightarrow> float64 \<Rightarrow> float64" where
  "fsub NaN b = NaN"
| "fsub a NaN = NaN"
| "fsub (Finite x) (Finite y) = round64 (x - y)"
| "fsub (Finite x) b = fneg b"
| "fsub a (Finite y) = a"
| "fsub a b = (if a = b then NaN else a)"

text \<open>\<^verbatim>\<open>a > b\<close>: false when either side is NaN.\<close>
fun fgt :: "float64 \<Rightarrow> float64 \<Rightarrow> bool" where
  "fgt NaN b = False"
| "fgt a NaN = False"
| "fgt (Finite x) (Finite y) = (y < x)"
| "fgt a b = (fsign b < fsign a \<and> (a = PosInf \<or> b = NegInf))"

section \<open>Errors and objects\<close>

datatype error = NotFoundError string | AlreadyExistsError string | OtherError string

fun IsNotFound :: "error \<Rightarrow> bool" where
  "IsNotFound (NotFoundError _) = True"
| "IsNotFound _ = False"

fun IsAlreadyExists :: "error \<Rightarrow> bool" where
  "IsAlreadyExists (AlreadyExistsError _) = True"
| "IsAlreadyExists _ = False"

text \<open>\<^verbatim>\<open>types.NamespacedName\<close>: namespace and name.\<close>
type_synonym NamespacedName = "string \<times> string"

record VolumeMount =
  vm_Name :: string
  vm_MountPath :: string
  vm_ReadOnly :: bool

text \<open>A container; \<open>c_Privileged\<close> is \<^verbatim>\<open>SecurityContext.Privileged\<close>.\<close>
record Container =
  c_Name :: string
  c_Image :: string
  c_Privileged :: bool
  c_VolumeMounts :: "VolumeMount list"

text \<open>A pod volume backed by a claim: \<^verbatim>\<open>Name\<close> and \<^verbatim>\<open>PersistentVolumeClaim.ClaimName\<close>.\<close>
record Volume =
  v_Name :: string
  v_ClaimName :: string

text \<open>Reading a \<^verbatim>\<open>nil\<close> label map gives what the empty map gives; both are the empty map.\<close>
record Pod =
  pod_Name :: string
  pod_Namespace :: string
  pod_Labels :: "string \<rightharpoonup> string"
  pod_Volumes :: "Volume list"
  pod_Containers :: "Container list"
  pod_SchedulerName :: string

record PersistentVolumeClaim =
  pvc_Name :: string
  pvc_Namespace :: string
  pvc_Labels :: "string \<rightharpoonup> string"
  pvc_Finalizers :: "string list"
  pvc_DeletionTimestamp :: "Time option"
  pvc_StorageClassName :: string
  pvc_AccessModes :: "string list"
  pvc_Requests :: "string \<rightharpoonup> quantity"
  pvc_Capacity :: "string \<rightharpoonup> quantity"
  pvc_Phase :: string

record StorageClass =
  sc_Name :: string
  sc_Provisioner :: string

text \<open>
  \<^verbatim>\<open>DiskConfig\<close>, its \<^verbatim>\<open>Spec\<close>, \<^verbatim>\<open>Spec.Policy\<close> and \<^verbatim>\<open>Status\<close> flattened.
  The status map is \<^verbatim>\<open>nil\<close> (\<open>None\<close>) until the first entry is written.
\<close>
record DiskConfig =
  dc_Name :: string
  dc_Namespace :: string
  dc_DeletionTimestamp :: "Time option"
  dc_StorageClassName :: string
  dc_Capacity :: quantity
  dc_AccessModes :: "string list"
  dc_MountPointPattern :: string
  dc_PodSelector :: "(string \<times> string) list"
  dc_Pause :: bool
  dc_MaximumCapacityOfDisk :: string
  dc_UpscaleTriggerPercentage :: nat
  dc_PersistentVolumeClaims :: "(string \<rightharpoonup> string) option"

text \<open>
  A parsed metric family (\<^verbatim>\<open>dto.MetricFamily\<close>): its metrics, each a list of
  label pairs (name, value).
\<close>
type_synonym LabelPair = "string \<times> string"
type_synonym MetricFamily = "LabelPair list list"

text \<open>
  The helpers of package \<^verbatim>\<open>utils\<close> and of the Kubernetes libraries that the
  modelled functions call and whose code is not among the modelled sources. They are
  parameters of the model.
\<close>
record Utils =
  RenderMountPoint :: "string \<Rightarrow> string \<Rightarrow> int \<Rightarrow> string"
  RenderFinalizer :: "string \<Rightarrow> string"
  RenderResourceName :: "bool \<Rightarrow> string \<Rightarrow> string \<Rightarrow> string \<Rightarrow> error + string"
  ParsePrometheusMetric :: "string \<Rightarrow> error + (string \<rightharpoonup> MetricFamily)"
  ParsePrometheusMetricValue :: "string \<Rightarrow> error + float64"
  ParseQuantity :: "string \<Rightarrow> error + quantity"
  AsApproximateFloat64 :: "quantity \<Rightarrow> float64"
  IsContainsAll :: "(string \<rightharpoonup> string) \<Rightarrow> (string \<times> string) list \<Rightarrow> bool"

text \<open>
  The driver of a storage backend as \<^verbatim>\<open>NewPVC\<close> uses it (\<^verbatim>\<open>drivers.Driver\<close>, declared
  outside the modelled sources): the claim stub for a name, a namespace and a storage
  class name.
\<close>
record Driver =
  drv_GetPVCStub :: "string \<Rightarrow> string \<Rightarrow> string \<Rightarrow> error + PersistentVolumeClaim"

text \<open>
  \<^verbatim>\<open>corev1.Endpoints\<close>: its labels and, per subset, the addresses with their IP and
  their target reference (a pointer, \<open>None\<close> when \<^verbatim>\<open>nil\<close>).
\<close>
record EndpointAddress =
  addr_IP :: string
  addr_TargetRef :: "NamespacedName option"

record Endpoints =
  ep_Name :: string
  ep_Labels :: "string \<rightharpoonup> string"
  ep_Subsets :: "EndpointAddress list list"

text \<open>
  The API client and the HTTP client as the reconciler and the monitor use them. Reads
  are answered from one snapshot (the manager's client reads from its cache);
  \<open>HttpGetMetrics\<close> is the request to \<^verbatim>\<open>http://<ip>:9100/metrics\<close> with the reading and
  the closing of the body, any of whose errors skips the address.
\<close>
record Client =
  GetPVC :: "NamespacedName \<Rightarrow> error + PersistentVolumeClaim"
  GetDiskConfig :: "NamespacedName \<Rightarrow> error + DiskConfig"
  GetPod :: "NamespacedName \<Rightarrow> error + Pod"
  ListEndpoints :: "error + Endpoints list"
  HttpGetMetrics :: "string \<Rightarrow> error + string"
  StatusUpdate :: "DiskConfig \<Rightarrow> error option"
  ListDiskConfigs :: "string \<Rightarrow> error + DiskConfig list"
  GetStorageClass :: "string \<Rightarrow> error + StorageClass"
  CreatePVC :: "PersistentVolumeClaim \<Rightarrow> error option"

text \<open>Indexing a Go map of strings: the empty string for a missing key.\<close>
definition index :: "(string \<rightharpoonup> string) \<Rightarrow> string \<Rightarrow> string" where
  "index m k = (case m k of Some v \<Rightarrow> v | None \<Rightarrow> [])"

fun errorMessage :: "error \<Rightarrow> string" where
  "errorMessage (NotFoundError m) = m"
| "errorMessage (AlreadyExistsError m) = m"
| "errorMessage (OtherError m) = m"

text \<open>\<^verbatim>\<open>controllerutil.ContainsFinalizer\<close>: membership in the finalizer list.\<close>
definition ContainsFinalizer :: "PersistentVolumeClaim \<Rightarrow> string \<Rightarrow> bool" where
  "ContainsFinalizer o' finalizer = (finalizer \<in> set (pvc_Finalizers o'))"

text \<open>\<^verbatim>\<open>ResourceList.Storage()\<close>: the storage entry, or the zero quantity.\<close>
definition Storage :: "(string \<rightharpoonup> quantity) \<Rightarrow> quantity" where
  "Storage rl = (case rl ''storage'' of Some q \<Rightarrow> q | None \<Rightarrow> 0)"

text \<open>\<^verbatim>\<open>Quantity.Cmp\<close>: \<open>-1\<close>, \<open>0\<close> or \<open>1\<close>.\<close>
definition Cmp :: "quantity \<Rightarrow> quantity \<Rightarrow> int" where
  "Cmp q y = (if q < y then -1 else if q = y then 0 else 1)"

section \<open>Volume monitor: one scraped sample\<close>

text \<open>
  The body of the innermost loop of \<^verbatim>\<open>MonitorVolumes\<close> (lines 249 to 358), for one
  metric line of one pod and one configuration. Every \<^verbatim>\<open>continue\<close> is a
  \<open>Continue\<close> carrying the message logged on that branch (empty where nothing is
  logged); \<open>UpdatePVC\<close> is the call \<^verbatim>\<open>r.Update(ctx, &pvc)\<close> with the object it is
  given, whatever the API answers; \<open>Panic\<close> is the index \<^verbatim>\<open>pod.Spec.Containers[0]\<close>
  on a pod without containers.
\<close>

datatype outcome =
    Continue string
  | UpdatePVC PersistentVolumeClaim
  | Panic

text \<open>Lines 261 to 268: the value of the last label named \<^verbatim>\<open>mountpoint\<close>.\<close>
definition findMountpoint :: "MetricFamily \<Rightarrow> string" where
  "findMountpoint mf =
     foldl (\<lambda>mountpoint m.
        foldl (\<lambda>mountpoint l. if fst l = ''mountpoint'' then snd l else mountpoint)
          mountpoint m) [] mf"

text \<open>Lines 278 to 286: the first volume mount of the first container at the mount point.\<close>
fun findVolume :: "string \<Rightarrow> VolumeMount list \<Rightarrow> string \<Rightarrow> NamespacedName" where
  "findVolume ns [] mountpoint = ([], [])"
| "findVolume ns (vm # vms) mountpoint =
     (if vm_MountPath vm = mountpoint then (ns, vm_Name vm)
      else findVolume ns vms mountpoint)"

text \<open>
  Lines 250 to 317: from the metric line to the claim, the available bytes and the
  maximum capacity, or the branch that leaves the iteration.
\<close>
definition resolveSample ::
  "Utils \<Rightarrow> (NamespacedName \<Rightarrow> error + PersistentVolumeClaim) \<Rightarrow> Pod \<Rightarrow> DiskConfig \<Rightarrow>
     string \<Rightarrow> outcome + (PersistentVolumeClaim \<times> float64 \<times> quantity)" where
  "resolveSample u getPVC pod config metric =
     (case ParsePrometheusMetric u metric of
        Inl err \<Rightarrow> Inl (Continue ''Failed to parse metrics'')
      | Inr mf \<Rightarrow>
     (case mf ''node_filesystem_avail_bytes'' of
        None \<Rightarrow> Inl (Continue ''Failed to find metric'')
      | Some family \<Rightarrow>
     (let mountpoint = findMountpoint family in
      if mountpoint = [] then Inl (Continue ''Failed to find mountpoint'')
      else if mountpoint \<noteq> RenderMountPoint u (dc_MountPointPattern config) (dc_Name config) 0
        then Inl (Continue [])
      else
     (case pod_Containers pod of
        [] \<Rightarrow> Inl Panic
      | c0 # _ \<Rightarrow>
     (let pvcName = findVolume (pod_Namespace pod) (c_VolumeMounts c0) mountpoint in
      if snd pvcName = [] then Inl (Continue ''Volume not found'')
      else
     (case getPVC pvcName of
        Inl err \<Rightarrow> Inl (Continue ''Failed to fetch PVC'')
      | Inr pvc \<Rightarrow>
      if \<not> ContainsFinalizer pvc (RenderFinalizer u (dc_Name config))
        then Inl (Continue ''PVC not managed by'')
      else
     (case ParsePrometheusMetricValue u metric of
        Inl err \<Rightarrow> Inl (Continue ''Metric is invalid'')
      | Inr available \<Rightarrow>
     (case ParseQuantity u (dc_MaximumCapacityOfDisk config) of
        Inl err \<Rightarrow> Inl (Continue ''Max capacity is invalid'')
      | Inr maxCapacity \<Rightarrow> Inr (pvc, available, maxCapacity)))))))))"

text \<open>
  Line 322: the threshold in bytes. The percentage is an integer field, converted by
  \<^verbatim>\<open>float64(...)\<close>; the constant \<^verbatim>\<open>hundred\<close> is the double 100.
\<close>
definition treshold :: "Utils \<Rightarrow> DiskConfig \<Rightarrow> quantity \<Rightarrow> float64" where
  "treshold u config actualCapacity =
     fdiv (fmul (AsApproximateFloat64 u actualCapacity)
             (round64 (of_nat (dc_UpscaleTriggerPercentage config))))
       (Finite 100)"

text \<open>Lines 319 to 357: the growth decision and the update of the storage request.\<close>
definition resizeDecision ::
  "Utils \<Rightarrow> DiskConfig \<Rightarrow> PersistentVolumeClaim \<Rightarrow> float64 \<Rightarrow> quantity \<Rightarrow> outcome" where
  "resizeDecision u config pvc available maxCapacity =
     (let actualCapacity = Storage (pvc_Capacity pvc) in
      if fgt (treshold u config actualCapacity)
           (fsub (AsApproximateFloat64 u actualCapacity) available)
        then Continue ''Disk size ok''
      else if Cmp actualCapacity maxCapacity = 0 then Continue ''New disk needed''
      else
     (case ParseQuantity u ''1Gi'' of
        Inl err \<Rightarrow> Continue ''Extend capacity is invalid''
      | Inr oneGi \<Rightarrow>
     (let newCapacity = oneGi + actualCapacity;
          newCapacity = (if Cmp maxCapacity newCapacity = -1 then maxCapacity else newCapacity)
      in UpdatePVC (pvc\<lparr>pvc_Requests := (pvc_Requests pvc)(''storage'' \<mapsto> newCapacity)\<rparr>))))"

definition monitorSample ::
  "Utils \<Rightarrow> (NamespacedName \<Rightarrow> error + PersistentVolumeClaim) \<Rightarrow> Pod \<Rightarrow> DiskConfig \<Rightarrow>
     string \<Rightarrow> outcome" where
  "monitorSample u getPVC pod config metric =
     (case resolveSample u getPVC pod config metric of
        Inl out \<Rightarrow> out
      | Inr (pvc, available, maxCapacity) \<Rightarrow> resizeDecision u config pvc available maxCapacity)"

section \<open>Volume monitor: one cycle\<close>

text \<open>
  Go leaves the iteration order of a map unspecified. The maps \<^verbatim>\<open>discoblocks\<close> and
  \<^verbatim>\<open>metrics\<close> of \<^verbatim>\<open>MonitorVolumes\<close> are association lists here, and the model
  visits the keys in the order of their first insertion.
\<close>

fun appendTo :: "('k \<times> 'v list) list \<Rightarrow> 'k \<Rightarrow> 'v \<Rightarrow> ('k \<times> 'v list) list" where
  "appendTo [] k v = [(k, [v])]"
| "appendTo ((k', vs) # kvs) k v =
     (if k' = k then (k', vs @ [v]) # kvs else (k', vs) # appendTo kvs k v)"

definition lookupList :: "('k \<times> 'v list) list \<Rightarrow> 'k \<Rightarrow> 'v list" where
  "lookupList kvs k = (case map_of kvs k of Some vs \<Rightarrow> vs | None \<Rightarrow> [])"

text \<open>\<^verbatim>\<open>strings.Split(s, sep)\<close> for a separator of one character.\<close>
fun splitOn :: "char \<Rightarrow> string \<Rightarrow> string list" where
  "splitOn sep [] = [[]]"
| "splitOn sep (c # cs) =
     (if c = sep then [] # splitOn sep cs
      else (case splitOn sep cs of l # ls \<Rightarrow> (c # l) # ls | [] \<Rightarrow> [[c]]))"

definition newline :: char where
  "newline = CHR 0x0A"

text \<open>Lines 197 to 206: the lines of a body kept for a pod.\<close>
definition keepLine :: "string \<Rightarrow> bool" where
  "keepLine line = (\<not> (prefix ''#'' line \<or> \<not> sublist ''node_filesystem_avail_bytes'' line))"

text \<open>
  Lines 162 to 207, for one address of one endpoints object with the labels \<open>labels\<close>.
  \<open>None\<close> is the panic of \<^verbatim>\<open>ip.TargetRef.Namespace\<close> on a \<^verbatim>\<open>nil\<close> target reference.
\<close>
definition scrapeAddress ::
  "Client \<Rightarrow> (string \<rightharpoonup> string) \<Rightarrow>
     (NamespacedName \<times> string list) list \<times> (NamespacedName \<times> string list) list \<Rightarrow>
     EndpointAddress \<Rightarrow>
     ((NamespacedName \<times> string list) list \<times> (NamespacedName \<times> string list) list) option" where
  "scrapeAddress c labels st ip =
     (case addr_TargetRef ip of
        None \<Rightarrow> None
      | Some podName \<Rightarrow>
     (let discoblocks = appendTo (fst st) podName (index labels ''discoblocks'') in
      case HttpGetMetrics c (addr_IP ip) of
        Inl err \<Rightarrow> Some (discoblocks, snd st)
      | Inr rawBody \<Rightarrow>
          Some (discoblocks,
            foldl (\<lambda>metrics line. if keepLine line then appendTo metrics podName line else metrics)
              (snd st) (splitOn newline rawBody))))"

fun foldOption :: "('s \<Rightarrow> 'a \<Rightarrow> 's option) \<Rightarrow> 's \<Rightarrow> 'a list \<Rightarrow> 's option" where
  "foldOption f s [] = Some s"
| "foldOption f s (x # xs) = (case f s x of None \<Rightarrow> None | Some s' \<Rightarrow> foldOption f s' xs)"

text \<open>Lines 156 to 209: all endpoints objects, their subsets and their addresses.\<close>
definition scrape ::
  "Client \<Rightarrow> Endpoints list \<Rightarrow>
     ((NamespacedName \<times> string list) list \<times> (NamespacedName \<times> string list) list) option" where
  "scrape c items =
     foldOption (\<lambda>st item.
        foldOption (\<lambda>st ss. foldOption (scrapeAddress c (ep_Labels item)) st ss) st (ep_Subsets item))
       ([], []) items"

text \<open>
  The loops of lines 218 to 360 write the trace of their iterations: the outcome of each
  sample, and a \<open>Continue\<close> for each pod or configuration that is skipped. A panic ends
  the trace.
\<close>

fun monitorMetrics :: "Utils \<Rightarrow> Client \<Rightarrow> Pod \<Rightarrow> DiskConfig \<Rightarrow> string list \<Rightarrow> outcome list" where
  "monitorMetrics u c pod config [] = []"
| "monitorMetrics u c pod config (metric # metrics) =
     (case monitorSample u (GetPVC c) pod config metric of
        Panic \<Rightarrow> [Panic]
      | out \<Rightarrow> out # monitorMetrics u c pod config metrics)"

definition panicked :: "outcome list \<Rightarrow> bool" where
  "panicked tr = (Panic \<in> set tr)"

text \<open>Lines 228 to 359, with the cache of fetched configurations passed along.\<close>
fun monitorConfigs ::
  "Utils \<Rightarrow> Client \<Rightarrow> Pod \<Rightarrow> string list \<Rightarrow> (NamespacedName \<rightharpoonup> DiskConfig) \<Rightarrow> string list \<Rightarrow>
     outcome list \<times> (NamespacedName \<rightharpoonup> DiskConfig)" where
  "monitorConfigs u c pod metrics diskConfigCache [] = ([], diskConfigCache)"
| "monitorConfigs u c pod metrics diskConfigCache (name # names) =
     (let diskConfigName = (pod_Namespace pod, name) in
      case (case diskConfigCache diskConfigName of
              Some config \<Rightarrow> Inr (config, diskConfigCache)
            | None \<Rightarrow>
               (case GetDiskConfig c diskConfigName of
                  Inl err \<Rightarrow> Inl err
                | Inr config \<Rightarrow> Inr (config, diskConfigCache(diskConfigName \<mapsto> config)))) of
        Inl err \<Rightarrow>
          (let r = monitorConfigs u c pod metrics diskConfigCache names
           in (Continue ''Failed to fetch DiskConfig error'' # fst r, snd r))
      | Inr (config, cache) \<Rightarrow>
          if dc_Pause config then
            (let r = monitorConfigs u c pod metrics cache names
             in (Continue ''Autoscaling paused'' # fst r, snd r))
          else
            (let tr = monitorMetrics u c pod config metrics in
             if panicked tr then (tr, cache)
             else (let r = monitorConfigs u c pod metrics cache names in (tr @ fst r, snd r))))"

text \<open>The cache holds what \<^verbatim>\<open>Client.Get\<close> answered.\<close>
definition cacheOf :: "Client \<Rightarrow> (NamespacedName \<rightharpoonup> DiskConfig) \<Rightarrow> bool" where
  "cacheOf c cache = (\<forall>key config. cache key = Some config \<longrightarrow> GetDiskConfig c key = Inr config)"

text \<open>Lines 218 to 360.\<close>
fun monitorPods ::
  "Utils \<Rightarrow> Client \<Rightarrow> (NamespacedName \<times> string list) list \<Rightarrow> (NamespacedName \<rightharpoonup> DiskConfig) \<Rightarrow>
     (NamespacedName \<times> string list) list \<Rightarrow> outcome list" where
  "monitorPods u c metrics diskConfigCache [] = []"
| "monitorPods u c metrics diskConfigCache ((podName, diskConfigNames) # discoblocks) =
     (case GetPod c podName of
        Inl err \<Rightarrow>
          Continue ''Failed to fetch pod error'' # monitorPods u c metrics diskConfigCache discoblocks
      | Inr pod \<Rightarrow>
         (let r = monitorConfigs u c pod (lookupList metrics podName) diskConfigCache diskConfigNames in
          if panicked (fst r) then fst r
          else fst r @ monitorPods u c metrics (snd r) discoblocks))"

text \<open>
  \<^verbatim>\<open>MonitorVolumes\<close>, lines 132 to 361, as the trace of one cycle. The early returns are
  recorded with their message. The selector of line 141 is built from constants and its
  error branch is left out.
\<close>
definition monitorCycle :: "Utils \<Rightarrow> Client \<Rightarrow> outcome list" where
  "monitorCycle u c =
     (case ListEndpoints c of
        Inl err \<Rightarrow> [Continue ''Unable to fetch Services'']
      | Inr items \<Rightarrow>
     (case scrape c items of
        None \<Rightarrow> [Panic]
      | Some (discoblocks, metrics) \<Rightarrow>
          if length metrics = 0 then [Continue ''Metrics data not found'']
          else monitorPods u c metrics Map.empty discoblocks))"

text \<open>
  The samples that the loops of a cycle visit, each with the pod and the configuration it
  is visited under: for every pod of \<^verbatim>\<open>discoblocks\<close> that is fetched, every configuration
  name listed for it whose configuration is fetched and not paused, and every metric
  line kept for the pod.
\<close>
definition configSamples ::
  "Client \<Rightarrow> Pod \<Rightarrow> string list \<Rightarrow> string \<Rightarrow> (Pod \<times> DiskConfig \<times> string) list" where
  "configSamples c pod metrics name =
     (case GetDiskConfig c (pod_Namespace pod, name) of
        Inl err \<Rightarrow> []
      | Inr config \<Rightarrow>
          if dc_Pause config then [] else map (\<lambda>metric. (pod, config, metric)) metrics)"

definition podSamples ::
  "Client \<Rightarrow> (NamespacedName \<times> string list) list \<Rightarrow> NamespacedName \<times> string list \<Rightarrow>
     (Pod \<times> DiskConfig \<times> string) list" where
  "podSamples c metrics entry =
     (case GetPod c (fst entry) of
        Inl err \<Rightarrow> []
      | Inr pod \<Rightarrow> concat (map (configSamples c pod (lookupList metrics (fst entry))) (snd entry)))"

definition cycleSamples :: "Client \<Rightarrow> (Pod \<times> DiskConfig \<times> string) list" where
  "cycleSamples c =
     (case ListEndpoints c of
        Inl err \<Rightarrow> []
      | Inr items \<Rightarrow>
     (case scrape c items of
        None \<Rightarrow> []
      | Some st \<Rightarrow> concat (map (podSamples c (snd st)) (fst st))))"

text \<open>The claims that a trace asks the API to update, in order.\<close>
fun updates :: "outcome list \<Rightarrow> PersistentVolumeClaim list" where
  "updates [] = []"
| "updates (UpdatePVC pvc # tr) = pvc # updates tr"
| "updates (_ # tr) = updates tr"

section \<open>The gate, the reconciler and the monitor as steps of one process\<close>

text \<open>
  What the process shares between the reconcile worker and the monitor's timer: the
  gate behind \<^verbatim>\<open>controllerSemaphore\<close>, and, to observe the steps, the status updates
  and the monitor traces issued so far.
\<close>
record World =
  gate :: bool
  statusUpdates :: "DiskConfig list"
  monitorTrace :: "outcome list"

text \<open>
  Modelled from the spec: \<^verbatim>\<open>controllerSemaphore\<close> is declared outside the modelled
  sources. The spec describes a single process-wide non-blocking mutual-exclusion gate:
  the call either acquires it at once or reports that it is held, and never waits.
  \<open>gate\<close> is \<open>True\<close> while it is held.
\<close>
definition controllerSemaphore :: "World \<Rightarrow> bool \<times> World" where
  "controllerSemaphore w = (if gate w then (False, w) else (True, w\<lparr>gate := True\<rparr>))"

definition unlock :: "World \<Rightarrow> World" where
  "unlock w = w\<lparr>gate := False\<rparr>"

text \<open>\<^verbatim>\<open>ctrl.Result\<close> with its \<^verbatim>\<open>Requeue\<close> field, and the returned error.\<close>
type_synonym ReconcileResult = "bool \<times> error option"

text \<open>Lines 103 to 115: the status map after the claim is mirrored into it.\<close>
definition mirrorStatus :: "PersistentVolumeClaim \<Rightarrow> DiskConfig \<Rightarrow> DiskConfig" where
  "mirrorStatus pvc config =
     (if pvc_DeletionTimestamp pvc \<noteq> None then
        (case dc_PersistentVolumeClaims config of
           None \<Rightarrow> config
         | Some m \<Rightarrow>
            (case m (pvc_Name pvc) of
               None \<Rightarrow> config
             | Some _ \<Rightarrow> config\<lparr>dc_PersistentVolumeClaims := Some (m(pvc_Name pvc := None))\<rparr>))
      else
        (let m = (case dc_PersistentVolumeClaims config of None \<Rightarrow> Map.empty | Some m \<Rightarrow> m)
         in config\<lparr>dc_PersistentVolumeClaims := Some (m(pvc_Name pvc \<mapsto> pvc_Phase pvc))\<rparr>))"

text \<open>Lines 71 to 128: the reconcile once the gate is acquired.\<close>
definition reconcileBody :: "Client \<Rightarrow> NamespacedName \<Rightarrow> World \<Rightarrow> ReconcileResult \<times> World" where
  "reconcileBody c req w =
     (case GetPVC c req of
        Inl err \<Rightarrow>
          if IsNotFound err then ((False, None), w)
          else ((False, Some (OtherError (''unable to fetch PVC: '' @ errorMessage err))), w)
      | Inr pvc \<Rightarrow>
     (case GetDiskConfig c (pvc_Namespace pvc, index (pvc_Labels pvc) ''discoblocks'') of
        Inl err \<Rightarrow>
          if IsNotFound err then ((False, None), w)
          else ((False, Some (OtherError ''unable to fetch PVC'')), w)
      | Inr config \<Rightarrow>
     (let config = mirrorStatus pvc config;
          w = w\<lparr>statusUpdates := statusUpdates w @ [config]\<rparr>
      in case StatusUpdate c config of
           Some err \<Rightarrow> ((False, Some (OtherError ''unable to update PVC status'')), w)
         | None \<Rightarrow> ((False, None), w))))"

text \<open>\<^verbatim>\<open>Reconcile\<close>, lines 61 to 129; the deferred \<^verbatim>\<open>unlock\<close> runs on every return of the body.\<close>
definition Reconcile :: "Client \<Rightarrow> NamespacedName \<Rightarrow> World \<Rightarrow> ReconcileResult \<times> World" where
  "Reconcile c req w =
     (let (lock, w) = controllerSemaphore w in
      if \<not> lock then ((True, None), w)
      else (let (res, w) = reconcileBody c req w in (res, unlock w)))"

text \<open>
  \<^verbatim>\<open>MonitorVolumes\<close> as a step of the process: the source of the cycle, lines 132 to
  361, has no call of \<^verbatim>\<open>controllerSemaphore\<close>.
\<close>
definition MonitorVolumes :: "Utils \<Rightarrow> Client \<Rightarrow> World \<Rightarrow> World" where
  "MonitorVolumes u c w = w\<lparr>monitorTrace := monitorTrace w @ monitorCycle u c\<rparr>"

section \<open>Event filter\<close>

text \<open>
  The object of an event is any \<^verbatim>\<open>client.Object\<close>; the filter casts it to a claim.
\<close>
datatype Object = PVCObject PersistentVolumeClaim | OtherObject

text \<open>Lines 367 to 375.\<close>
definition Create :: "Utils \<Rightarrow> Object \<Rightarrow> bool" where
  "Create u e_Object =
     (case e_Object of
        OtherObject \<Rightarrow> False
      | PVCObject newObj \<Rightarrow>
          ContainsFinalizer newObj (RenderFinalizer u (index (pvc_Labels newObj) ''discoblocks'')))"

text \<open>Lines 377 to 379.\<close>
definition Delete :: "Object \<Rightarrow> bool" where
  "Delete e_Object = False"

text \<open>Lines 381 to 401.\<close>
definition Update :: "Utils \<Rightarrow> Object \<Rightarrow> Object \<Rightarrow> bool" where
  "Update u e_ObjectOld e_ObjectNew =
     (case e_ObjectNew of
        OtherObject \<Rightarrow> False
      | PVCObject newObj \<Rightarrow>
          if \<not> ContainsFinalizer newObj (RenderFinalizer u (index (pvc_Labels newObj) ''discoblocks''))
          then False
          else
           (case e_ObjectOld of
              OtherObject \<Rightarrow> False
            | PVCObject oldObj \<Rightarrow>
                pvc_DeletionTimestamp oldObj \<noteq> None \<or>
                pvc_DeletionTimestamp newObj \<noteq> None \<or>
                pvc_Phase oldObj \<noteq> pvc_Phase newObj))"

text \<open>Lines 403 to 405.\<close>
definition Generic :: "Object \<Rightarrow> bool" where
  "Generic e_Object = False"

text \<open>
  The events of the controller runtime, and the filter method each kind is given to
  (\<^verbatim>\<open>WithEventFilter\<close>, line 427): the reconciler is triggered for the events admitted.
\<close>
datatype Event =
    CreateEvent Object
  | UpdateEvent Object Object
  | DeleteEvent Object
  | GenericEvent Object

fun pvcEventFilter :: "Utils \<Rightarrow> Event \<Rightarrow> bool" where
  "pvcEventFilter u (CreateEvent obj) = Create u obj"
| "pvcEventFilter u (UpdateEvent old new) = Update u old new"
| "pvcEventFilter u (DeleteEvent obj) = Delete obj"
| "pvcEventFilter u (GenericEvent obj) = Generic obj"

section \<open>Claims and the metrics sidecar (\<^verbatim>\<open>pkg/utils/kube.go\<close>)\<close>

text \<open>\<^verbatim>\<open>NewPVC\<close>, lines 298 to 328.\<close>
definition NewPVC :: "Utils \<Rightarrow> DiskConfig \<Rightarrow> string \<Rightarrow> Driver \<Rightarrow> error + PersistentVolumeClaim" where
  "NewPVC u config prefix' driver =
     (case RenderResourceName u True prefix' (dc_Name config) (dc_Namespace config) of
        Inl err \<Rightarrow> Inl (OtherError (''unable to calculate hash: '' @ errorMessage err))
      | Inr pvcName \<Rightarrow>
     (case drv_GetPVCStub driver pvcName (dc_Namespace config) (dc_StorageClassName config) of
        Inl err \<Rightarrow> Inl (OtherError (''unable to init a PVC: '' @ errorMessage err))
      | Inr pvc \<Rightarrow>
          Inr (pvc\<lparr>pvc_Finalizers := [RenderFinalizer u (dc_Name config)],
                   pvc_Labels := [''discoblocks'' \<mapsto> dc_Name config],
                   pvc_Requests := [''storage'' \<mapsto> dc_Capacity config],
                   pvc_AccessModes :=
                     (if length (dc_AccessModes config) = 0 then [''ReadWriteOnce'']
                      else dc_AccessModes config)\<rparr>)))"

text \<open>
  \<^verbatim>\<open>RenderMetricsSidecar\<close>, lines 191 to 211. The template is a constant that
  \<^verbatim>\<open>yaml.Unmarshal\<close> reads, so the error branch is never taken.
\<close>
definition RenderMetricsSidecar :: "bool \<Rightarrow> error + Container" where
  "RenderMetricsSidecar privileged =
     Inr \<lparr>c_Name = ''discoblocks-metrics'',
          c_Image = ''bitnami/node-exporter:1.4.0'',
          c_Privileged = privileged,
          c_VolumeMounts =
            (if privileged
             then [\<lparr>vm_Name = ''varlibkubelet'', vm_MountPath = ''/var/lib/kubelet'', vm_ReadOnly = True\<rparr>]
             else [])\<rparr>"

section \<open>Pod mutator\<close>

text \<open>
  The responses of package \<^verbatim>\<open>admission\<close> as the calls that build them:
  \<^verbatim>\<open>admission.Errored(code, err)\<close>, a denial with a status code, whose error argument is
  \<open>None\<close> when the handler passes \<^verbatim>\<open>nil\<close>; \<^verbatim>\<open>admission.Allowed(reason)\<close>, which
  admits the pod as it was sent; and \<^verbatim>\<open>admission.PatchResponseFromRaw\<close>, which admits
  it with the patch to the mutated pod.
\<close>
datatype Response =
    Errored int "error option"
  | Allowed string
  | PatchResponse Pod

text \<open>Lines 488 to 494.\<close>
definition errorMode :: "bool \<Rightarrow> int \<Rightarrow> string \<Rightarrow> error option \<Rightarrow> Response" where
  "errorMode strict code reason err = (if strict then Errored code err else Allowed reason)"

text \<open>
  The map \<^verbatim>\<open>volumes\<close> from claim name to mount point, as an association list:
  assigning to a key present replaces its value, to a new key adds it.
\<close>
fun assign :: "('k \<times> 'v) list \<Rightarrow> 'k \<Rightarrow> 'v \<Rightarrow> ('k \<times> 'v) list" where
  "assign [] k v = [(k, v)]"
| "assign ((k', v') # kvs) k v = (if k' = k then (k, v) # kvs else (k', v') # assign kvs k v)"

text \<open>
  The loop of lines 497 to 564 over the configurations listed. Its state is the pod,
  the map \<^verbatim>\<open>volumes\<close> and the claims handed to \<^verbatim>\<open>Client.Create\<close> so far. \<open>Inl\<close> is a
  \<^verbatim>\<open>return\<close> inside the loop. Line 531 calls \<^verbatim>\<open>NewPVC\<close> with the configuration and the
  provisioner; the driver is a parameter here.
\<close>
fun attachVolumes ::
  "Utils \<Rightarrow> Client \<Rightarrow> Driver \<Rightarrow> bool \<Rightarrow>
     Pod \<times> (string \<times> string) list \<times> PersistentVolumeClaim list \<Rightarrow> DiskConfig list \<Rightarrow>
     (Response \<times> PersistentVolumeClaim list) + (Pod \<times> (string \<times> string) list \<times> PersistentVolumeClaim list)" where
  "attachVolumes u c driver strict st [] = Inr st"
| "attachVolumes u c driver strict (pod, volumes, created) (config # items) =
     (if dc_DeletionTimestamp config \<noteq> None
        then attachVolumes u c driver strict (pod, volumes, created) items
      else if \<not> IsContainsAll u (pod_Labels pod) (dc_PodSelector config)
        then attachVolumes u c driver strict (pod, volumes, created) items
      else
     (let pod = pod\<lparr>pod_Labels := (pod_Labels pod)(''discoblocks/metrics'' \<mapsto> dc_Name config)\<rparr> in
      case GetStorageClass c (dc_StorageClassName config) of
        Inl err \<Rightarrow>
          if IsNotFound err
          then Inl (errorMode strict 404
                      (''StorageClass not found: '' @ dc_StorageClassName config) (Some err), created)
          else Inl (Errored 500
                      (Some (OtherError (''unable to fetch StorageClass: '' @ errorMessage err))), created)
      | Inr sc \<Rightarrow>
     (case NewPVC u config (sc_Provisioner sc) driver of
        Inl err \<Rightarrow> Inl (errorMode strict 500 (errorMessage err) (Some err), created)
      | Inr pvc \<Rightarrow>
     (let err = CreatePVC c pvc; created = created @ [pvc] in
      case (case err of
              Some e \<Rightarrow>
                if \<not> IsAlreadyExists e
                then Some (Errored 500 (Some (OtherError (''unable to create PVC: '' @ errorMessage e))))
                else None
            | None \<Rightarrow> None) of
        Some r \<Rightarrow> Inl (r, created)
      | None \<Rightarrow>
     (let mountpoint = RenderMountPoint u (dc_MountPointPattern config) (pvc_Name pvc) 0 in
      if mountpoint \<in> snd ` set volumes
        then Inl (errorMode strict 500 ''Unable to init a PVC'' err, created)
      else
        attachVolumes u c driver strict
          (pod\<lparr>pod_Volumes := pod_Volumes pod @ [\<lparr>v_Name = pvc_Name pvc, v_ClaimName = pvc_Name pvc\<rparr>]\<rparr>,
           assign volumes (pvc_Name pvc) mountpoint,
           created) items)))))"

text \<open>Lines 583 to 590: every container receives a mount for every entry of \<^verbatim>\<open>volumes\<close>.\<close>
definition attachVolumeMounts :: "(string \<times> string) list \<Rightarrow> Container \<Rightarrow> Container" where
  "attachVolumeMounts volumes container =
     container\<lparr>c_VolumeMounts := c_VolumeMounts container @
        map (\<lambda>(name, mp). \<lparr>vm_Name = name, vm_MountPath = mp, vm_ReadOnly = False\<rparr>) volumes\<rparr>"

text \<open>
  \<^verbatim>\<open>PodMutator.Handle\<close>, lines 465 to 599. The request is given by what the decoder
  makes of it. The result is the response with the claims handed to \<^verbatim>\<open>Client.Create\<close>.
  Marshalling the pod does not fail and its error branch is left out. Line 574 calls
  \<^verbatim>\<open>RenderMetricsSidecar\<close> without an argument; the sidecar is rendered unprivileged, as
  its template has it.
\<close>
definition Handle ::
  "Utils \<Rightarrow> Client \<Rightarrow> Driver \<Rightarrow> bool \<Rightarrow> error + Pod \<Rightarrow> Response \<times> PersistentVolumeClaim list" where
  "Handle u c driver strict req =
     (case req of
        Inl err \<Rightarrow>
          (Errored 400 (Some (OtherError (''unable to decode request: '' @ errorMessage err))), [])
      | Inr pod \<Rightarrow>
     (case ListDiskConfigs c (pod_Namespace pod) of
        Inl err \<Rightarrow>
          (Errored 500 (Some (OtherError (''unable to fetch configs: '' @ errorMessage err))), [])
      | Inr items \<Rightarrow>
     (case attachVolumes u c driver strict (pod, [], []) items of
        Inl r \<Rightarrow> r
      | Inr (pod, volumes, created) \<Rightarrow>
          if length volumes = 0 then (Allowed ''No sidecar injection'', created)
          else
           (let pod = pod\<lparr>pod_SchedulerName := ''discoblocks-scheduler''\<rparr> in
            case RenderMetricsSidecar False of
              Inl err \<Rightarrow> (Allowed ''Metrics sidecar template invalid'', created)
            | Inr metricsSideCar \<Rightarrow>
               (let pod = pod\<lparr>pod_Containers := pod_Containers pod @ [metricsSideCar]\<rparr>;
                    pod = pod\<lparr>pod_Containers := map (attachVolumeMounts volumes) (pod_Containers pod)\<rparr>
                in (PatchResponse pod, created))))))"

section \<open>Host jobs (\<^verbatim>\<open>pkg/utils/kube.go\<close>)\<close>






















text \<open>
  The three renderers. \<open>now\<close> is the text of \<^verbatim>\<open>time.Now().UnixNano()\<close> printed with
  \<^verbatim>\<open>%d\<close>.
\<close>




section \<open>The driver of \<^verbatim>\<open>ebs.csi.aws.com\<close> (\<^verbatim>\<open>drivers/ebs.csi.aws.com/main.go\<close>)\<close>



section \<open>Concrete inputs\<close>

text \<open>
  Stand-ins for the helpers and the cluster outside the modelled sources, to run the
  model on concrete inputs. A metric line is read by a table.
\<close>

definition metricLine :: "string \<Rightarrow> string" where
  \<open>metricLine v = ''node_filesystem_avail_bytes{mountpoint="/data"} '' @ v\<close>

definition fakeUtils :: Utils where
  "fakeUtils =
     \<lparr>RenderMountPoint =
        (\<lambda>pattern name index. if pattern = [] then ''/media/discoblocks/'' @ name else pattern),
      RenderFinalizer = (\<lambda>name. ''discoblocks.io/'' @ name),
      RenderResourceName = (\<lambda>_ prefix' name namespace. Inr (prefix' @ ''-'' @ name)),
      ParsePrometheusMetric =
        (\<lambda>line. if prefix (metricLine []) line
           then Inr [''node_filesystem_avail_bytes'' \<mapsto> [[(''mountpoint'', ''/data'')]]]
           else Inl (OtherError ''unable to parse'')),
      ParsePrometheusMetricValue =
        (\<lambda>line. case map_of
             [(metricLine ''322122547'', Finite 322122547),
              (metricLine ''4831838208'', Finite 4831838208),
              (metricLine ''4831838209'', Finite 4831838209),
              (metricLine ''NaN'', NaN)] line of
           Some v \<Rightarrow> Inr v
         | None \<Rightarrow> Inl (OtherError ''unable to parse'')),
      ParseQuantity =
        (\<lambda>str. case map_of [(''1Gi'', 1073741824), (''10Gi'', 10737418240)] str of
           Some q \<Rightarrow> Inr q
         | None \<Rightarrow> Inl (OtherError ''unable to parse'')),
      AsApproximateFloat64 = round64,
      IsContainsAll = (\<lambda>labels selector. list_all (\<lambda>(k, v). labels k = Some v) selector)\<rparr>"

definition fakeConfig :: DiskConfig where
  "fakeConfig =
     \<lparr>dc_Name = ''diskconfig'', dc_Namespace = ''default'', dc_DeletionTimestamp = None,
      dc_StorageClassName = ''ebs-sc'', dc_Capacity = 5368709120, dc_AccessModes = [],
      dc_MountPointPattern = ''/data'', dc_PodSelector = [(''app'', ''db'')], dc_Pause = False,
      dc_MaximumCapacityOfDisk = ''10Gi'', dc_UpscaleTriggerPercentage = 10,
      dc_PersistentVolumeClaims = None\<rparr>"

definition fakePVC :: "quantity \<Rightarrow> string list \<Rightarrow> PersistentVolumeClaim" where
  "fakePVC capacity finalizers =
     \<lparr>pvc_Name = ''pvc-0'', pvc_Namespace = ''default'',
      pvc_Labels = [''discoblocks'' \<mapsto> ''diskconfig''], pvc_Finalizers = finalizers,
      pvc_DeletionTimestamp = None, pvc_StorageClassName = ''ebs-sc'',
      pvc_AccessModes = [''ReadWriteOnce''], pvc_Requests = [''storage'' \<mapsto> capacity],
      pvc_Capacity = [''storage'' \<mapsto> capacity], pvc_Phase = ''Bound''\<rparr>"

definition fakePod :: Pod where
  "fakePod =
     \<lparr>pod_Name = ''pod-0'', pod_Namespace = ''default'', pod_Labels = [''app'' \<mapsto> ''db''],
      pod_Volumes = [\<lparr>v_Name = ''pvc-0'', v_ClaimName = ''pvc-0''\<rparr>],
      pod_Containers =
        [\<lparr>c_Name = ''db'', c_Image = ''db:1'', c_Privileged = False,
          c_VolumeMounts = [\<lparr>vm_Name = ''pvc-0'', vm_MountPath = ''/data'', vm_ReadOnly = False\<rparr>]\<rparr>],
      pod_SchedulerName = ''discoblocks-scheduler''\<rparr>"

definition fakeBody :: "string \<Rightarrow> string" where
  "fakeBody v =
     ''# TYPE node_filesystem_avail_bytes gauge'' @ [newline] @ metricLine v @ [newline]"

definition fakeClient :: "PersistentVolumeClaim \<Rightarrow> string \<Rightarrow> Client" where
  "fakeClient pvc v =
     \<lparr>GetPVC = (\<lambda>key. if key = (''default'', ''pvc-0'') then Inr pvc else Inl (NotFoundError ''not found'')),
      GetDiskConfig =
        (\<lambda>key. if key = (''default'', ''diskconfig'') then Inr fakeConfig
           else Inl (NotFoundError ''not found'')),
      GetPod = (\<lambda>key. if key = (''default'', ''pod-0'') then Inr fakePod else Inl (NotFoundError ''not found'')),
      ListEndpoints =
        Inr [\<lparr>ep_Name = ''metrics'', ep_Labels = [''discoblocks'' \<mapsto> ''diskconfig''],
              ep_Subsets = [[\<lparr>addr_IP = ''10.0.0.1'', addr_TargetRef = Some (''default'', ''pod-0'')\<rparr>]]\<rparr>],
      HttpGetMetrics = (\<lambda>ip. if ip = ''10.0.0.1'' then Inr (fakeBody v) else Inl (OtherError ''refused'')),
      StatusUpdate = (\<lambda>config. None),
      ListDiskConfigs = (\<lambda>namespace. Inr [fakeConfig]),
      GetStorageClass =
        (\<lambda>name. if name = ''ebs-sc'' then Inr \<lparr>sc_Name = ''ebs-sc'', sc_Provisioner = ''ebs.csi.aws.com''\<rparr>
           else Inl (NotFoundError ''not found'')),
      CreatePVC = (\<lambda>pvc. None)\<rparr>"


section \<open>Rounding\<close>

lemma roundToEven_of_int: "roundToEven (of_int k) = k"
  by (simp add: roundToEven_def)

lemma roundToEven_near: "\<bar>of_int (roundToEven y) - y\<bar> \<le> 1 / 2"
proof -
  have "of_int \<lfloor>y\<rfloor> \<le> y" "y < of_int \<lfloor>y\<rfloor> + 1" by linarith+
  then show ?thesis
    by (auto simp add: roundToEven_def Let_def abs_le_iff)
qed

lemma bitlen_le: "0 < m \<Longrightarrow> m < 2 ^ k \<Longrightarrow> bitlen m \<le> int k"
proof -
  assume m: "0 < m" "m < 2 ^ k"
  from bitlen_bounds [OF m(1)] have "(2::int) ^ nat (bitlen m - 1) \<le> m" by simp
  with m(2) have "(2::int) ^ nat (bitlen m - 1) < 2 ^ k" by linarith
  then have "nat (bitlen m - 1) < k" by (simp add: power_strict_increasing_iff)
  then show ?thesis by linarith
qed

lemma exponent_le:
  assumes "0 < x" "x < 2 ^ k"
  shows "exponent x \<le> int k - 1"
proof (cases "1 \<le> x")
  case True
  then have pos: "0 < \<lfloor>x\<rfloor>" by linarith
  have "of_int \<lfloor>x\<rfloor> \<le> x" by linarith
  with assms(2) have "(of_int \<lfloor>x\<rfloor> :: rat) < 2 ^ k" by linarith
  then have "\<lfloor>x\<rfloor> < 2 ^ k"
    by (metis of_int_less_iff of_int_numeral of_int_power)
  from bitlen_le [OF pos this] True show ?thesis
    by (simp add: exponent_def)
next
  case False
  with assms(1) have "1 < 1 / x" by simp
  then have "0 < \<lceil>1 / x\<rceil> - 1" by linarith
  then have "0 < bitlen (\<lceil>1 / x\<rceil> - 1)"
    using bitlen_eq_zero_iff [of "\<lceil>1 / x\<rceil> - 1"] bitlen_nonneg [of "\<lceil>1 / x\<rceil> - 1"]
    by linarith
  with False show ?thesis
    by (simp add: exponent_def)
qed

lemma powi_le: "e \<le> e' \<Longrightarrow> (2::rat) powi e \<le> 2 powi e'"
  by (simp add: power_int_increasing)

text \<open>Integers of at most 53 bits are doubles.\<close>
lemma round64_of_int:
  assumes "\<bar>k\<bar> < 2 ^ 53"
  shows "round64 (of_int k) = Finite (of_int k)"
proof (cases "k = 0")
  case True
  then show ?thesis by (simp add: round64_def)
next
  case False
  define a where "a = \<bar>k\<bar>"
  have a: "0 < a" "a < 2 ^ 53" using False assms by (simp_all add: a_def)
  have abs: "\<bar>of_int k :: rat\<bar> = of_int a" by (simp add: a_def)
  have one: "(1::rat) \<le> of_int a" using a(1) by simp
  define e where "e = max (exponent (of_int a)) (- 1022)"
  have ex: "exponent (of_int a) = bitlen a - 1"
    using one by (simp add: exponent_def)
  have "bitlen a \<le> 53" using bitlen_le [OF a] by simp
  moreover have "0 \<le> bitlen a" by (rule bitlen_nonneg)
  ultimately have e: "e \<le> 52" "- 1022 \<le> e"
    by (simp_all add: e_def ex)
  define n where "n = nat (52 - e)"
  have ulp: "(2::rat) powi (e - 52) = 1 / 2 ^ n"
    using e by (simp add: n_def power_int_def field_simps)
  have quot: "(of_int a :: rat) / (2 powi (e - 52)) = of_int (a * 2 ^ n)"
    by (simp add: ulp)
  have m: "of_int (roundToEven (of_int a / (2 powi (e - 52)))) * (2 powi (e - 52)) = (of_int a :: rat)"
    unfolding quot roundToEven_of_int by (simp add: ulp)
  have small: "\<not> (2::rat) ^ 1024 \<le> of_int a"
  proof -
    have "(of_int a :: rat) < 2 ^ 53" using a(2)
      by (metis of_int_less_iff of_int_numeral of_int_power)
    also have "\<dots> \<le> 2 ^ 1024" by (rule power_increasing) simp_all
    finally show ?thesis by simp
  qed
  have sg: "sgn (of_int k :: rat) * of_int a = of_int k"
    by (simp add: a_def sgn_if)
  show ?thesis
    using False small sg
    by (simp add: round64_def Let_def abs e_def [symmetric] m)
qed


text \<open>Below \<open>2^46\<close> a double is within \<open>2^-8\<close> of the number it rounds.\<close>
lemma round64_near:
  assumes "0 \<le> x" "x < 2 ^ 46"
  obtains r where "round64 x = Finite r" "\<bar>r - x\<bar> \<le> 1 / 256"
proof (cases "x = 0")
  case True
  then have "round64 x = Finite 0" "\<bar>0 - x\<bar> \<le> 1 / 256" by (simp_all add: round64_def)
  then show ?thesis by (rule that)
next
  case False
  with assms(1) have pos: "0 < x" by simp
  define e where "e = max (exponent \<bar>x\<bar>) (- 1022)"
  define ulp :: rat where "ulp = 2 powi (e - 52)"
  define m where "m = of_int (roundToEven (\<bar>x\<bar> / ulp)) * ulp"
  have "exponent x \<le> 45" using exponent_le [OF pos assms(2)] by simp
  then have "e - 52 \<le> - 7" using pos by (simp add: e_def)
  from powi_le [OF this] have "ulp \<le> 2 powi (- 7)"
    by (simp add: ulp_def)
  moreover have "(2::rat) powi (- 7) = 1 / 128"
    by (simp add: power_int_def power_divide)
  ultimately have ulp_le: "ulp \<le> 1 / 128"
    by simp
  have ulp_pos: "0 < ulp" by (simp add: ulp_def)
  have "\<bar>of_int (roundToEven (x / ulp)) - x / ulp\<bar> * ulp \<le> 1 / 2 * ulp"
    by (rule mult_right_mono [OF roundToEven_near]) (use ulp_pos in simp)
  moreover have "\<bar>of_int (roundToEven (x / ulp)) - x / ulp\<bar> * ulp = \<bar>m - x\<bar>"
  proof -
    have "\<bar>of_int (roundToEven (x / ulp)) - x / ulp\<bar> * ulp
        = \<bar>(of_int (roundToEven (x / ulp)) - x / ulp) * ulp\<bar>"
      using ulp_pos by (simp add: abs_mult)
    also have "(of_int (roundToEven (x / ulp)) - x / ulp) * ulp = m - x"
      using ulp_pos pos by (simp add: m_def field_simps)
    finally show ?thesis .
  qed
  ultimately have near: "\<bar>m - x\<bar> \<le> 1 / 256"
    using ulp_le by linarith
  have "m < 2 ^ 46 + 1" using near assms(2) by linarith
  also have "(2::rat) ^ 46 + 1 \<le> 2 ^ 1024" by simp
  finally have small: "\<not> 2 ^ 1024 \<le> m" by simp
  have "round64 x = Finite m"
    using False small pos unfolding m_def ulp_def e_def
    by (simp add: round64_def Let_def)
  then show ?thesis using near by (rule that)
qed

text \<open>
  For whole numbers of bytes, a capacity below \<open>2^46\<close> and a percentage of at most
  100, the comparison of line 326 is the exact one.
\<close>
lemma fgt_treshold_exact:
  fixes n v :: int
  assumes conv: "AsApproximateFloat64 u (of_int n) = Finite (of_int n)"
    and n: "0 \<le> n" "n < 2 ^ 46"
    and pct: "dc_UpscaleTriggerPercentage config \<le> 100"
    and v: "\<bar>v\<bar> < 2 ^ 52"
  shows "fgt (treshold u config (of_int n)) (fsub (AsApproximateFloat64 u (of_int n)) (Finite (of_int v)))
     \<longleftrightarrow> (of_int n - of_int v :: rat) < of_int n * of_nat (dc_UpscaleTriggerPercentage config) / 100"
proof -
  define p where "p = dc_UpscaleTriggerPercentage config"
  define x :: rat where "x = of_int n * of_nat p / 100"
  have p: "round64 (of_nat p) = Finite (of_nat p)"
    using round64_of_int [of "int p"] pct by (simp add: p_def)
  have np: "\<bar>n * int p\<bar> < 2 ^ 53"
  proof -
    have "n * int p \<le> n * 100" using n(1) pct by (simp add: p_def mult_left_mono)
    also have "\<dots> < 2 ^ 46 * 100" using n(2) by simp
    also have "\<dots> < (2 ^ 53 :: int)" by simp
    finally show ?thesis using n(1) by (simp add: abs_mult)
  qed
  have prod: "round64 (of_int n * of_nat p) = Finite (of_int n * of_nat p)"
    using round64_of_int [OF np] by simp
  have x0: "0 \<le> x" using n(1) by (simp add: x_def)
  have "of_int n * (of_nat p :: rat) \<le> of_int n * 100"
    using n(1) pct by (intro mult_left_mono) (simp_all add: p_def)
  then have "x \<le> of_int n" by (simp add: x_def)
  also have "(of_int n :: rat) < 2 ^ 46" using n(2)
    by (metis of_int_less_iff of_int_numeral of_int_power)
  finally have x46: "x < 2 ^ 46" .
  obtain t where t: "round64 x = Finite t" "\<bar>t - x\<bar> \<le> 1 / 256"
    using round64_near [OF x0 x46] by blast
  have thr: "treshold u config (of_int n) = Finite t"
    using conv p prod t(1) by (simp add: treshold_def p_def [symmetric] x_def)
  define d where "d = n - v"
  have "\<bar>d\<bar> < 2 ^ 53" using n v by (simp add: d_def abs_less_iff)
  from round64_of_int [OF this]
  have sub: "fsub (AsApproximateFloat64 u (of_int n)) (Finite (of_int v)) = Finite (of_int d)"
    using conv by (simp add: d_def)
  have "(of_int d < t) \<longleftrightarrow> (of_int d < x)"
  proof (cases "of_int d < x")
    case True
    have "of_int (d * 100) < (of_int n * of_nat p :: rat)"
      using True by (simp add: x_def)
    then have "d * 100 < n * int p"
      by (metis of_int_less_iff of_int_mult of_int_of_nat_eq)
    then have "d * 100 + 1 \<le> n * int p" by simp
    then have "(of_int (d * 100 + 1) :: rat) \<le> of_int (n * int p)"
      by (simp only: of_int_le_iff)
    then have "of_int d + 1 / 100 \<le> x"
      by (simp add: x_def)
    with t(2) True show ?thesis by linarith
  next
    case False
    show ?thesis
    proof (cases "x = of_int d")
      case True
      have "\<bar>d\<bar> < 2 ^ 53" by fact
      from round64_of_int [OF this] t(1) True have "t = of_int d" by simp
      with False show ?thesis by simp
    next
      case ne: False
      with False have "x < of_int d" by simp
      then have "(of_int n * of_nat p :: rat) < of_int (d * 100)"
        by (simp add: x_def)
      then have "n * int p < d * 100"
        by (metis of_int_less_iff of_int_mult of_int_of_nat_eq)
      then have "n * int p + 1 \<le> d * 100" by simp
      then have "(of_int (n * int p + 1) :: rat) \<le> of_int (d * 100)"
        by (simp only: of_int_le_iff)
      then have "x + 1 / 100 \<le> of_int d"
        by (simp add: x_def)
      with t(2) False show ?thesis by linarith
    qed
  qed
  then show ?thesis
    unfolding thr sub by (simp add: x_def p_def d_def)
qed

section \<open>Properties of the volume monitor\<close>

lemmas fake_defs = fakeUtils_def fakeClient_def fakePVC_def fakePod_def fakeConfig_def
  metricLine_def fakeBody_def

lemma resolveSample_no_update: "resolveSample u g pod config metric \<noteq> Inl (UpdatePVC p)"
  by (auto simp add: resolveSample_def Let_def split: sum.splits option.splits list.splits)

text \<open>An update comes from a resolved sample and the growth decision on it.\<close>
lemma monitorSample_UpdatePVC:
  assumes "monitorSample u g pod config metric = UpdatePVC p"
  obtains pvc available maxCapacity where
    "resolveSample u g pod config metric = Inr (pvc, available, maxCapacity)"
    "resizeDecision u config pvc available maxCapacity = UpdatePVC p"
  using assms resolveSample_no_update [of u g pod config metric p]
  by (auto simp add: monitorSample_def split: sum.splits)

lemma resizeDecision_UpdatePVC:
  assumes "resizeDecision u config pvc available maxCapacity = UpdatePVC p"
  shows "\<exists>r. p = pvc\<lparr>pvc_Requests := r\<rparr>"
    and "Storage (pvc_Capacity pvc) \<noteq> maxCapacity"
    and "\<not> fgt (treshold u config (Storage (pvc_Capacity pvc)))
            (fsub (AsApproximateFloat64 u (Storage (pvc_Capacity pvc))) available)"
  using assms
  by (auto simp add: resizeDecision_def Let_def Cmp_def split: if_splits sum.splits)

lemma resolveSample_Inr:
  assumes "resolveSample u g pod config metric = Inr (pvc, available, maxCapacity)"
  shows "ContainsFinalizer pvc (RenderFinalizer u (dc_Name config))"
    and "ParseQuantity u (dc_MaximumCapacityOfDisk config) = Inr maxCapacity"
    and "ParsePrometheusMetricValue u metric = Inr available"
    and "\<exists>c0 cs. pod_Containers pod = c0 # cs
           \<and> g (findVolume (pod_Namespace pod) (c_VolumeMounts c0)
                  (RenderMountPoint u (dc_MountPointPattern config) (dc_Name config) 0)) = Inr pvc
           \<and> snd (findVolume (pod_Namespace pod) (c_VolumeMounts c0)
                  (RenderMountPoint u (dc_MountPointPattern config) (dc_Name config) 0)) \<noteq> []"
  using assms
  by (auto simp add: resolveSample_def Let_def split: sum.splits option.splits if_splits list.splits)

text \<open>The loop over the metric lines.\<close>
lemma monitorMetrics_sound:
  "UpdatePVC p \<in> set (monitorMetrics u c pod config metrics) \<Longrightarrow>
   \<exists>metric \<in> set metrics. monitorSample u (GetPVC c) pod config metric = UpdatePVC p"
  by (induction metrics) (auto split: outcome.splits)

lemma monitorMetrics_complete:
  "metric \<in> set metrics \<Longrightarrow> \<not> panicked (monitorMetrics u c pod config metrics) \<Longrightarrow>
   monitorSample u (GetPVC c) pod config metric \<in> set (monitorMetrics u c pod config metrics)"
  by (induction metrics) (auto simp add: panicked_def split: outcome.splits)

lemma monitorConfigs_cache:
  "cacheOf c cache \<Longrightarrow> cacheOf c (snd (monitorConfigs u c pod metrics cache names))"
proof (induction names arbitrary: cache)
  case Nil
  then show ?case by simp
next
  case (Cons name names)
  let ?key = "(pod_Namespace pod, name)"
  show ?case
  proof (cases "cache ?key")
    case (Some config)
    then show ?thesis
      using Cons.IH [OF Cons.prems] Cons.prems by (simp add: Let_def)
  next
    case None
    show ?thesis
    proof (cases "GetDiskConfig c ?key")
      case (Inl err)
      with None show ?thesis
        using Cons.IH [OF Cons.prems] Cons.prems by (simp add: Let_def)
    next
      case (Inr config)
      have c': "cacheOf c (cache(?key \<mapsto> config))"
        using Cons.prems Inr by (simp add: cacheOf_def)
      from Cons.IH [OF c'] c' None Inr show ?thesis
        by (simp add: Let_def del: fun_upd_apply)
    qed
  qed
qed

lemma monitorConfigs_sound:
  "cacheOf c cache \<Longrightarrow> UpdatePVC p \<in> set (fst (monitorConfigs u c pod metrics cache names)) \<Longrightarrow>
   \<exists>name \<in> set names. \<exists>config. GetDiskConfig c (pod_Namespace pod, name) = Inr config \<and> \<not> dc_Pause config
      \<and> (\<exists>metric \<in> set metrics. monitorSample u (GetPVC c) pod config metric = UpdatePVC p)"
proof (induction names arbitrary: cache)
  case Nil
  then show ?case by simp
next
  case (Cons name names)
  let ?key = "(pod_Namespace pod, name)"
  have step: "cacheOf c cache' \<Longrightarrow>
      UpdatePVC p \<in> set (fst (monitorConfigs u c pod metrics cache' names)) \<Longrightarrow> ?case" for cache'
    using Cons.IH [of cache'] by auto
  show ?case
  proof (cases "cache ?key")
    case (Some config)
    then have g: "GetDiskConfig c ?key = Inr config"
      using Cons.prems(1) by (simp add: cacheOf_def)
    from Cons.prems(2) Some
    have "UpdatePVC p \<in> set (fst (monitorConfigs u c pod metrics cache names))
        \<or> (\<not> dc_Pause config \<and> UpdatePVC p \<in> set (monitorMetrics u c pod config metrics))"
      by (auto simp add: Let_def split: if_splits)
    then show ?thesis
      using step [OF Cons.prems(1)] g monitorMetrics_sound [of p u c pod config metrics] by auto
  next
    case None
    show ?thesis
    proof (cases "GetDiskConfig c ?key")
      case (Inl err)
      with None Cons.prems(2) show ?thesis
        using step [OF Cons.prems(1)] by (auto simp add: Let_def)
    next
      case (Inr config)
      have c': "cacheOf c (cache(?key \<mapsto> config))"
        using Cons.prems(1) Inr by (simp add: cacheOf_def)
      from Cons.prems(2) None Inr
      have "UpdatePVC p \<in> set (fst (monitorConfigs u c pod metrics (cache(?key \<mapsto> config)) names))
          \<or> (\<not> dc_Pause config \<and> UpdatePVC p \<in> set (monitorMetrics u c pod config metrics))"
        by (auto simp add: Let_def simp del: fun_upd_apply split: if_splits)
      then show ?thesis
        using step [OF c'] Inr monitorMetrics_sound [of p u c pod config metrics] by auto
    qed
  qed
qed


lemma panicked_append: "panicked (a @ b) = (panicked a \<or> panicked b)"
  by (auto simp add: panicked_def)

lemma monitorConfigs_complete:
  "cacheOf c cache \<Longrightarrow> name \<in> set names \<Longrightarrow>
   GetDiskConfig c (pod_Namespace pod, name) = Inr config \<Longrightarrow> \<not> dc_Pause config \<Longrightarrow>
   metric \<in> set metrics \<Longrightarrow>
   \<not> panicked (fst (monitorConfigs u c pod metrics cache names)) \<Longrightarrow>
   monitorSample u (GetPVC c) pod config metric \<in> set (fst (monitorConfigs u c pod metrics cache names))"
proof (induction names arbitrary: cache)
  case Nil
  then show ?case by simp
next
  case (Cons n names)
  let ?key = "(pod_Namespace pod, n)"
  let ?goal = "monitorSample u (GetPVC c) pod config metric
      \<in> set (fst (monitorConfigs u c pod metrics cache (n # names)))"
  note prems = Cons.prems
  show ?case
  proof (cases "GetDiskConfig c ?key")
    case (Inl err)
    then have none: "cache ?key = None"
      using prems(1) by (cases "cache ?key") (auto simp add: cacheOf_def)
    from Inl prems(3) have "n \<noteq> name" by auto
    with prems(2) have "name \<in> set names" by simp
    moreover from prems(6) Inl none
    have "\<not> panicked (fst (monitorConfigs u c pod metrics cache names))"
      by (simp add: Let_def panicked_def)
    ultimately have "monitorSample u (GetPVC c) pod config metric
        \<in> set (fst (monitorConfigs u c pod metrics cache names))"
      using Cons.IH prems by blast
    with Inl none show ?thesis by (simp add: Let_def)
  next
    case (Inr config')
    define cache' where "cache' = (case cache ?key of Some _ \<Rightarrow> cache | None \<Rightarrow> cache(?key \<mapsto> config'))"
    have c': "cacheOf c cache'"
      using prems(1) Inr by (auto simp add: cache'_def cacheOf_def split: option.splits)
    have hit: "cache ?key = Some cfg \<Longrightarrow> cfg = config'" for cfg
      using prems(1) Inr by (auto simp add: cacheOf_def)
    let ?rest = "monitorConfigs u c pod metrics cache' names"
    let ?tr = "monitorMetrics u c pod config' metrics"
    have unfold: "fst (monitorConfigs u c pod metrics cache (n # names)) =
        (if dc_Pause config' then Continue ''Autoscaling paused'' # fst ?rest
         else if panicked ?tr then ?tr else ?tr @ fst ?rest)"
      using Inr hit
      by (cases "cache ?key") (auto simp add: Let_def cache'_def simp del: fun_upd_apply)
    show ?thesis
    proof (cases "n = name")
      case True
      with Inr prems(3) have same: "config' = config" by simp
      from prems(6) have np: "\<not> panicked ?tr"
        unfolding unfold using same prems(4) by (auto simp add: panicked_append)
      from monitorMetrics_complete [OF prems(5) np [unfolded same]]
      show ?thesis unfolding unfold using same prems(4) np by auto
    next
      case False
      with prems(2) have in_rest: "name \<in> set names" by simp
      from prems(6) have "\<not> panicked (fst ?rest)"
        unfolding unfold by (auto simp add: panicked_append panicked_def split: if_splits)
      with Cons.IH [OF c' in_rest prems(3) prems(4) prems(5)]
      have "monitorSample u (GetPVC c) pod config metric \<in> set (fst ?rest)" by blast
      moreover from prems(6) have "\<not> dc_Pause config' \<Longrightarrow> \<not> panicked ?tr"
        unfolding unfold by (auto simp add: panicked_append split: if_splits)
      ultimately show ?thesis unfolding unfold by auto
    qed
  qed
qed

text \<open>The loop over the pods.\<close>
lemma monitorPods_sound:
  "cacheOf c cache \<Longrightarrow> UpdatePVC p \<in> set (monitorPods u c metrics cache discoblocks) \<Longrightarrow>
   \<exists>(podName, names) \<in> set discoblocks. \<exists>pod. GetPod c podName = Inr pod
      \<and> (\<exists>name \<in> set names. \<exists>config.
            GetDiskConfig c (pod_Namespace pod, name) = Inr config \<and> \<not> dc_Pause config
            \<and> (\<exists>metric \<in> set (lookupList metrics podName).
                  monitorSample u (GetPVC c) pod config metric = UpdatePVC p))"
proof (induction discoblocks arbitrary: cache)
  case Nil
  then show ?case by simp
next
  case (Cons a discoblocks)
  obtain podName names where a: "a = (podName, names)" by (cases a)
  show ?case
  proof (cases "GetPod c podName")
    case (Inl err)
    with Cons.prems have "UpdatePVC p \<in> set (monitorPods u c metrics cache discoblocks)"
      unfolding a by simp
    from Cons.IH [OF Cons.prems(1) this] show ?thesis by auto
  next
    case (Inr pod)
    let ?r = "monitorConfigs u c pod (lookupList metrics podName) cache names"
    have c': "cacheOf c (snd ?r)"
      by (rule monitorConfigs_cache [OF Cons.prems(1)])
    from Cons.prems(2) Inr
    have "UpdatePVC p \<in> set (fst ?r) \<or> UpdatePVC p \<in> set (monitorPods u c metrics (snd ?r) discoblocks)"
      unfolding a by (auto simp add: Let_def split: if_splits)
    then show ?thesis
    proof
      assume "UpdatePVC p \<in> set (fst ?r)"
      from monitorConfigs_sound [OF Cons.prems(1) this] Inr show ?thesis
        unfolding a by auto
    next
      assume "UpdatePVC p \<in> set (monitorPods u c metrics (snd ?r) discoblocks)"
      from Cons.IH [OF c' this] show ?thesis by auto
    qed
  qed
qed

lemma monitorPods_complete:
  "cacheOf c cache \<Longrightarrow> (podName, names) \<in> set discoblocks \<Longrightarrow> GetPod c podName = Inr pod \<Longrightarrow>
   name \<in> set names \<Longrightarrow> GetDiskConfig c (pod_Namespace pod, name) = Inr config \<Longrightarrow>
   \<not> dc_Pause config \<Longrightarrow> metric \<in> set (lookupList metrics podName) \<Longrightarrow>
   \<not> panicked (monitorPods u c metrics cache discoblocks) \<Longrightarrow>
   monitorSample u (GetPVC c) pod config metric \<in> set (monitorPods u c metrics cache discoblocks)"
proof (induction discoblocks arbitrary: cache)
  case Nil
  then show ?case by simp
next
  case (Cons a discoblocks)
  obtain podName' names' where a: "a = (podName', names')" by (cases a)
  note prems = Cons.prems
  show ?case
  proof (cases "GetPod c podName'")
    case (Inl err)
    with prems(3) have "podName' \<noteq> podName" by auto
    with prems(2) have mem: "(podName, names) \<in> set discoblocks" unfolding a by simp
    from prems(8) Inl have "\<not> panicked (monitorPods u c metrics cache discoblocks)"
      unfolding a by (simp add: panicked_def)
    from Cons.IH [OF prems(1) mem prems(3-7) this] Inl show ?thesis
      unfolding a by simp
  next
    case (Inr pod')
    let ?r = "monitorConfigs u c pod' (lookupList metrics podName') cache names'"
    have c': "cacheOf c (snd ?r)"
      by (rule monitorConfigs_cache [OF prems(1)])
    have unfold: "monitorPods u c metrics cache (a # discoblocks) =
        (if panicked (fst ?r) then fst ?r
         else fst ?r @ monitorPods u c metrics (snd ?r) discoblocks)"
      unfolding a using Inr by (simp add: Let_def)
    from prems(8) have np: "\<not> panicked (fst ?r)"
      unfolding unfold by (auto split: if_splits)
    with prems(8) have np': "\<not> panicked (monitorPods u c metrics (snd ?r) discoblocks)"
      unfolding unfold by (simp add: panicked_append)
    from prems(2) have "(podName, names) = (podName', names') \<or> (podName, names) \<in> set discoblocks"
      unfolding a by auto
    then show ?thesis
    proof
      assume "(podName, names) = (podName', names')"
      with Inr prems(3) have eq: "podName' = podName" "names' = names" "pod' = pod" by auto
      from monitorConfigs_complete [OF prems(1) prems(4) prems(5) prems(6) prems(7), of u] np
      show ?thesis unfolding unfold eq by auto
    next
      assume "(podName, names) \<in> set discoblocks"
      from Cons.IH [OF c' this prems(3-7) np'] np show ?thesis
        unfolding unfold by auto
    qed
  qed
qed

text \<open>A cycle and the samples it visits.\<close>
lemma configSamples_iff:
  "(pod', config, metric) \<in> set (configSamples c pod metrics name) \<longleftrightarrow>
   pod' = pod \<and> GetDiskConfig c (pod_Namespace pod, name) = Inr config \<and> \<not> dc_Pause config
     \<and> metric \<in> set metrics"
  by (auto simp add: configSamples_def split: sum.splits)

lemma podSamples_iff:
  "(pod, config, metric) \<in> set (podSamples c metrics (podName, names)) \<longleftrightarrow>
   GetPod c podName = Inr pod
     \<and> (\<exists>name \<in> set names. GetDiskConfig c (pod_Namespace pod, name) = Inr config \<and> \<not> dc_Pause config
           \<and> metric \<in> set (lookupList metrics podName))"
  by (cases "GetPod c podName") (auto simp add: podSamples_def configSamples_iff)

lemma cacheOf_empty: "cacheOf c Map.empty"
  by (simp add: cacheOf_def)

lemma monitorCycle_sound:
  assumes "UpdatePVC p \<in> set (monitorCycle u c)"
  shows "\<exists>(pod, config, metric) \<in> set (cycleSamples c).
           monitorSample u (GetPVC c) pod config metric = UpdatePVC p"
proof -
  from assms obtain items discoblocks metrics
    where items: "ListEndpoints c = Inr items"
      and scr: "scrape c items = Some (discoblocks, metrics)"
      and tr: "UpdatePVC p \<in> set (monitorPods u c metrics Map.empty discoblocks)"
    by (auto simp add: monitorCycle_def split: sum.splits option.splits if_splits)
  from monitorPods_sound [OF cacheOf_empty tr]
  obtain podName names pod name config metric
    where "(podName, names) \<in> set discoblocks" "GetPod c podName = Inr pod" "name \<in> set names"
      "GetDiskConfig c (pod_Namespace pod, name) = Inr config" "\<not> dc_Pause config"
      "metric \<in> set (lookupList metrics podName)"
      "monitorSample u (GetPVC c) pod config metric = UpdatePVC p"
    by blast
  then have "(pod, config, metric) \<in> set (podSamples c metrics (podName, names))"
    by (auto simp add: podSamples_iff)
  with \<open>(podName, names) \<in> set discoblocks\<close>
  have "(pod, config, metric) \<in> set (cycleSamples c)"
    unfolding cycleSamples_def using items scr by force
  with \<open>monitorSample u (GetPVC c) pod config metric = UpdatePVC p\<close> show ?thesis
    by blast
qed

lemma monitorCycle_complete:
  assumes "(pod, config, metric) \<in> set (cycleSamples c)" and "\<not> panicked (monitorCycle u c)"
  shows "monitorSample u (GetPVC c) pod config metric \<in> set (monitorCycle u c)"
proof -
  from assms(1) obtain items where items: "ListEndpoints c = Inr items"
    by (cases "ListEndpoints c") (auto simp add: cycleSamples_def)
  with assms(1) obtain discoblocks metrics where scr: "scrape c items = Some (discoblocks, metrics)"
    by (cases "scrape c items") (auto simp add: cycleSamples_def)
  from assms(1) items scr obtain entry
    where entry: "entry \<in> set discoblocks"
      and mem: "(pod, config, metric) \<in> set (podSamples c metrics entry)"
    by (auto simp add: cycleSamples_def)
  obtain podName names where e: "entry = (podName, names)" by (cases entry)
  from mem [unfolded e podSamples_iff]
  obtain name where pod: "GetPod c podName = Inr pod" and name: "name \<in> set names"
    and cfg: "GetDiskConfig c (pod_Namespace pod, name) = Inr config" and np: "\<not> dc_Pause config"
    and metric: "metric \<in> set (lookupList metrics podName)"
    by blast
  from metric have "metrics \<noteq> []"
    by (auto simp add: lookupList_def)
  then have cyc: "monitorCycle u c = monitorPods u c metrics Map.empty discoblocks"
    using items scr by (simp add: monitorCycle_def)
  from monitorPods_complete [OF cacheOf_empty entry [unfolded e] pod name cfg np metric]
    assms(2) [unfolded cyc]
  show ?thesis unfolding cyc by blast
qed

lemma round64_numeral:
  "(numeral w :: int) < 2 ^ 53 \<Longrightarrow> round64 (numeral w) = Finite (numeral w)"
  using round64_of_int [of "numeral w"] by simp

lemmas float_eval = treshold_def round64_numeral

lemmas sample_eval = resolveSample_def findMountpoint_def ContainsFinalizer_def Storage_def Cmp_def

lemmas cycle_eval = monitorCycle_def cycleSamples_def podSamples_def configSamples_def scrape_def
  scrapeAddress_def index_def keepLine_def newline_def lookupList_def panicked_def

lemma fake_oneGi: "ParseQuantity fakeUtils ''1Gi'' = Inr (2 ^ 30)"
  by (simp add: fakeUtils_def)

lemma fake_resolve:
  "resolveSample fakeUtils (GetPVC (fakeClient (fakePVC cap [''discoblocks.io/diskconfig'']) b))
     fakePod fakeConfig (metricLine ''322122547'') =
   Inr (fakePVC cap [''discoblocks.io/diskconfig''], Finite 322122547, 10737418240)"
  by (simp add: sample_eval fake_defs)

lemma fake_resolve_above:
  "resolveSample fakeUtils (GetPVC (fakeClient (fakePVC cap [''discoblocks.io/diskconfig'']) b))
     fakePod fakeConfig (metricLine ''4831838209'') =
   Inr (fakePVC cap [''discoblocks.io/diskconfig''], Finite 4831838209, 10737418240)"
  by (simp add: sample_eval fake_defs)

lemma fake_resolve_boundary:
  "resolveSample fakeUtils (GetPVC (fakeClient (fakePVC cap [''discoblocks.io/diskconfig'']) b))
     fakePod fakeConfig (metricLine ''4831838208'') =
   Inr (fakePVC cap [''discoblocks.io/diskconfig''], Finite 4831838208, 10737418240)"
  by (simp add: sample_eval fake_defs)

lemma fake_samples:
  "cycleSamples (fakeClient pvc ''322122547'') = [(fakePod, fakeConfig, metricLine ''322122547'')]"
  "cycleSamples (fakeClient pvc ''4831838208'') = [(fakePod, fakeConfig, metricLine ''4831838208'')]"
  "cycleSamples (fakeClient pvc ''4831838209'') = [(fakePod, fakeConfig, metricLine ''4831838209'')]"
  by (simp_all add: cycle_eval fake_defs)

lemma fake_cycle:
  "monitorCycle fakeUtils (fakeClient pvc ''322122547'') =
   (case monitorSample fakeUtils (GetPVC (fakeClient pvc ''322122547'')) fakePod fakeConfig
           (metricLine ''322122547'') of
      Panic \<Rightarrow> [Panic] | out \<Rightarrow> [out])"
  "monitorCycle fakeUtils (fakeClient pvc ''4831838208'') =
   (case monitorSample fakeUtils (GetPVC (fakeClient pvc ''4831838208'')) fakePod fakeConfig
           (metricLine ''4831838208'') of
      Panic \<Rightarrow> [Panic] | out \<Rightarrow> [out])"
  "monitorCycle fakeUtils (fakeClient pvc ''4831838209'') =
   (case monitorSample fakeUtils (GetPVC (fakeClient pvc ''4831838209'')) fakePod fakeConfig
           (metricLine ''4831838209'') of
      Panic \<Rightarrow> [Panic] | out \<Rightarrow> [out])"
  by (simp_all add: cycle_eval fake_defs split: outcome.splits)

lemma fake_sample_5Gi:
  "monitorSample fakeUtils (GetPVC (fakeClient (fakePVC 5368709120 [''discoblocks.io/diskconfig'']) b))
     fakePod fakeConfig (metricLine ''322122547'') =
   UpdatePVC ((fakePVC 5368709120 [''discoblocks.io/diskconfig''])
     \<lparr>pvc_Requests := [''storage'' \<mapsto> 6442450944]\<rparr>)"
  unfolding monitorSample_def fake_resolve
  by (simp add: resizeDecision_def float_eval Storage_def Cmp_def fakePVC_def fakeConfig_def fakeUtils_def)

text \<open>
  C1, as the code has it. Take a monitor cycle that does not panic and a sample that the
  cycle visits (its pod is fetched, its configuration is fetched and not paused, its line
  was scraped for the pod) and that resolves to a managed claim. The threshold is the
  current capacity times \<open>UpscaleTriggerPercentage\<close> over 100, taken in \<^verbatim>\<open>float64\<close> as
  line 322 takes it, and line 326 compares it with the current capacity minus the
  available bytes.
  \<^item> If the threshold is not above that difference and the current capacity is not the
    configured maximum, the cycle asks for the storage request
    \<open>min (currentCapacity + 1Gi) maximumCapacity\<close> on the claim.
  \<^item> If the threshold is above that difference, the sample asks for nothing (``Disk size
    ok''); and a cycle in which this holds of every visited sample that resolves to the
    claim asks for no update of the claim.
  \<^item> For whole numbers of bytes, a capacity below \<open>2^46\<close> and a percentage of at most
    100, the comparison is exact: the threshold is above the difference exactly when the
    available bytes are above the current capacity minus the threshold.
\<close>
theorem C1_resize_decision:
  assumes "(pod, config, metric) \<in> set (cycleSamples c)"
    and "resolveSample u (GetPVC c) pod config metric = Inr (pvc, available, maxCapacity)"
    and "ParseQuantity u ''1Gi'' = Inr (2 ^ 30)"
    and "\<not> panicked (monitorCycle u c)"
  shows "(\<not> fgt (treshold u config (Storage (pvc_Capacity pvc)))
             (fsub (AsApproximateFloat64 u (Storage (pvc_Capacity pvc))) available)
          \<and> Storage (pvc_Capacity pvc) \<noteq> maxCapacity \<longrightarrow>
          UpdatePVC (pvc\<lparr>pvc_Requests := (pvc_Requests pvc)
              (''storage'' \<mapsto> min (Storage (pvc_Capacity pvc) + 2 ^ 30) maxCapacity)\<rparr>)
            \<in> set (monitorCycle u c))
       \<and> (fgt (treshold u config (Storage (pvc_Capacity pvc)))
             (fsub (AsApproximateFloat64 u (Storage (pvc_Capacity pvc))) available) \<longrightarrow>
          monitorSample u (GetPVC c) pod config metric = Continue ''Disk size ok'')
       \<and> ((\<forall>(pod', config', metric') \<in> set (cycleSamples c). \<forall>r' available' maxCapacity'.
              resolveSample u (GetPVC c) pod' config' metric' =
                Inr (pvc\<lparr>pvc_Requests := r'\<rparr>, available', maxCapacity') \<longrightarrow>
              fgt (treshold u config' (Storage (pvc_Capacity pvc)))
                (fsub (AsApproximateFloat64 u (Storage (pvc_Capacity pvc))) available')) \<longrightarrow>
           (\<forall>r. UpdatePVC (pvc\<lparr>pvc_Requests := r\<rparr>) \<notin> set (monitorCycle u c)))
       \<and> (\<forall>n v. Storage (pvc_Capacity pvc) = of_int n \<and> 0 \<le> n \<and> n < 2 ^ 46
              \<and> AsApproximateFloat64 u (of_int n) = Finite (of_int n)
              \<and> dc_UpscaleTriggerPercentage config \<le> 100
              \<and> available = Finite (of_int v) \<and> \<bar>v\<bar> < 2 ^ 52 \<longrightarrow>
            fgt (treshold u config (Storage (pvc_Capacity pvc)))
              (fsub (AsApproximateFloat64 u (Storage (pvc_Capacity pvc))) available)
            = (of_int n - of_int n * of_nat (dc_UpscaleTriggerPercentage config) / 100 < (of_int v :: rat)))"
proof (intro conjI impI allI)
  assume a: "\<not> fgt (treshold u config (Storage (pvc_Capacity pvc)))
             (fsub (AsApproximateFloat64 u (Storage (pvc_Capacity pvc))) available)
          \<and> Storage (pvc_Capacity pvc) \<noteq> maxCapacity"
  with assms(2,3)
  have "monitorSample u (GetPVC c) pod config metric =
      UpdatePVC (pvc\<lparr>pvc_Requests := (pvc_Requests pvc)
        (''storage'' \<mapsto> min (Storage (pvc_Capacity pvc) + 2 ^ 30) maxCapacity)\<rparr>)"
    by (auto simp add: monitorSample_def resizeDecision_def Let_def Cmp_def min_def add.commute)
  with monitorCycle_complete [OF assms(1,4)]
  show "UpdatePVC (pvc\<lparr>pvc_Requests := (pvc_Requests pvc)
              (''storage'' \<mapsto> min (Storage (pvc_Capacity pvc) + 2 ^ 30) maxCapacity)\<rparr>)
            \<in> set (monitorCycle u c)"
    by simp
next
  assume "fgt (treshold u config (Storage (pvc_Capacity pvc)))
             (fsub (AsApproximateFloat64 u (Storage (pvc_Capacity pvc))) available)"
  with assms(2) show "monitorSample u (GetPVC c) pod config metric = Continue ''Disk size ok''"
    by (simp add: monitorSample_def resizeDecision_def)
next
  fix r
  assume all: "\<forall>(pod', config', metric') \<in> set (cycleSamples c). \<forall>r' available' maxCapacity'.
              resolveSample u (GetPVC c) pod' config' metric' =
                Inr (pvc\<lparr>pvc_Requests := r'\<rparr>, available', maxCapacity') \<longrightarrow>
              fgt (treshold u config' (Storage (pvc_Capacity pvc)))
                (fsub (AsApproximateFloat64 u (Storage (pvc_Capacity pvc))) available')"
  show "UpdatePVC (pvc\<lparr>pvc_Requests := r\<rparr>) \<notin> set (monitorCycle u c)"
  proof
    assume "UpdatePVC (pvc\<lparr>pvc_Requests := r\<rparr>) \<in> set (monitorCycle u c)"
    from monitorCycle_sound [OF this] obtain pod' config' metric'
      where mem: "(pod', config', metric') \<in> set (cycleSamples c)"
        and upd: "monitorSample u (GetPVC c) pod' config' metric' = UpdatePVC (pvc\<lparr>pvc_Requests := r\<rparr>)"
      by blast
    from upd obtain pvc' available' maxCapacity'
      where res: "resolveSample u (GetPVC c) pod' config' metric' = Inr (pvc', available', maxCapacity')"
        and dec: "resizeDecision u config' pvc' available' maxCapacity' = UpdatePVC (pvc\<lparr>pvc_Requests := r\<rparr>)"
      by (rule monitorSample_UpdatePVC)
    from resizeDecision_UpdatePVC(1) [OF dec]
    obtain r' where "pvc\<lparr>pvc_Requests := r\<rparr> = pvc'\<lparr>pvc_Requests := r'\<rparr>"
      by blast
    then have "(pvc\<lparr>pvc_Requests := r\<rparr>)\<lparr>pvc_Requests := pvc_Requests pvc'\<rparr>
        = (pvc'\<lparr>pvc_Requests := r'\<rparr>)\<lparr>pvc_Requests := pvc_Requests pvc'\<rparr>"
      by simp
    then have same: "pvc' = pvc\<lparr>pvc_Requests := pvc_Requests pvc'\<rparr>"
      by simp
    from res same
    have res': "resolveSample u (GetPVC c) pod' config' metric' =
        Inr (pvc\<lparr>pvc_Requests := pvc_Requests pvc'\<rparr>, available', maxCapacity')"
      by simp
    from bspec [OF all mem]
    have "\<forall>r' available' maxCapacity'.
        resolveSample u (GetPVC c) pod' config' metric' =
          Inr (pvc\<lparr>pvc_Requests := r'\<rparr>, available', maxCapacity') \<longrightarrow>
        fgt (treshold u config' (Storage (pvc_Capacity pvc)))
          (fsub (AsApproximateFloat64 u (Storage (pvc_Capacity pvc))) available')"
      by simp
    with res'
    have "fgt (treshold u config' (Storage (pvc_Capacity pvc)))
            (fsub (AsApproximateFloat64 u (Storage (pvc_Capacity pvc))) available')"
      by blast
    moreover have "pvc_Capacity pvc' = pvc_Capacity pvc"
      by (subst same) simp
    ultimately show False
      using resizeDecision_UpdatePVC(3) [OF dec] by simp
  qed
next
  fix n v :: int
  assume h: "Storage (pvc_Capacity pvc) = of_int n \<and> 0 \<le> n \<and> n < 2 ^ 46
              \<and> AsApproximateFloat64 u (of_int n) = Finite (of_int n)
              \<and> dc_UpscaleTriggerPercentage config \<le> 100
              \<and> available = Finite (of_int v) \<and> \<bar>v\<bar> < 2 ^ 52"
  then have "fgt (treshold u config (of_int n)) (fsub (AsApproximateFloat64 u (of_int n)) (Finite (of_int v)))
     \<longleftrightarrow> (of_int n - of_int v :: rat) < of_int n * of_nat (dc_UpscaleTriggerPercentage config) / 100"
    by (intro fgt_treshold_exact) simp_all
  with h show "fgt (treshold u config (Storage (pvc_Capacity pvc)))
              (fsub (AsApproximateFloat64 u (Storage (pvc_Capacity pvc))) available)
            = (of_int n - of_int n * of_nat (dc_UpscaleTriggerPercentage config) / 100 < (of_int v :: rat))"
    by auto
qed


lemma fake_not_panicked:
  "monitorSample fakeUtils (GetPVC (fakeClient pvc ''322122547'')) fakePod fakeConfig
       (metricLine ''322122547'') \<noteq> Panic \<Longrightarrow>
   \<not> panicked (monitorCycle fakeUtils (fakeClient pvc ''322122547''))"
  "monitorSample fakeUtils (GetPVC (fakeClient pvc ''4831838209'')) fakePod fakeConfig
       (metricLine ''4831838209'') \<noteq> Panic \<Longrightarrow>
   \<not> panicked (monitorCycle fakeUtils (fakeClient pvc ''4831838209''))"
  by (auto simp add: fake_cycle panicked_def split: outcome.splits)

lemma fake_sample_above:
  "monitorSample fakeUtils (GetPVC (fakeClient (fakePVC 5368709120 [''discoblocks.io/diskconfig'']) b))
     fakePod fakeConfig (metricLine ''4831838209'') = Continue ''Disk size ok''"
  unfolding monitorSample_def fake_resolve_above
  by (simp add: resizeDecision_def float_eval Storage_def Cmp_def fakePVC_def fakeConfig_def fakeUtils_def)

lemma fake_fgt:
  "\<not> fgt (treshold fakeUtils fakeConfig (Storage (pvc_Capacity (fakePVC 5368709120 fs))))
      (fsub (AsApproximateFloat64 fakeUtils (Storage (pvc_Capacity (fakePVC 5368709120 fs))))
         (Finite 322122547))"
  "fgt (treshold fakeUtils fakeConfig (Storage (pvc_Capacity (fakePVC 5368709120 fs))))
      (fsub (AsApproximateFloat64 fakeUtils (Storage (pvc_Capacity (fakePVC 5368709120 fs))))
         (Finite 4831838209))"
  by (simp_all add: float_eval Storage_def fakePVC_def fakeConfig_def fakeUtils_def)

theorem C1_resize_decision_witness:
  "UpdatePVC ((fakePVC 5368709120 [''discoblocks.io/diskconfig''])
       \<lparr>pvc_Requests := [''storage'' \<mapsto> 6442450944]\<rparr>)
     \<in> set (monitorCycle fakeUtils
              (fakeClient (fakePVC 5368709120 [''discoblocks.io/diskconfig'']) ''322122547''))
   \<and> monitorSample fakeUtils
       (GetPVC (fakeClient (fakePVC 5368709120 [''discoblocks.io/diskconfig'']) ''4831838209''))
       fakePod fakeConfig (metricLine ''4831838209'') = Continue ''Disk size ok''
   \<and> (\<forall>r. UpdatePVC ((fakePVC 5368709120 [''discoblocks.io/diskconfig''])\<lparr>pvc_Requests := r\<rparr>)
         \<notin> set (monitorCycle fakeUtils
                  (fakeClient (fakePVC 5368709120 [''discoblocks.io/diskconfig'']) ''4831838209'')))
   \<and> fgt (treshold fakeUtils fakeConfig 5368709120)
        (fsub (AsApproximateFloat64 fakeUtils 5368709120) (Finite 4831838209))
      = (5368709120 - 5368709120 * 10 / 100 < (4831838209 :: rat))"
proof -
  let ?pvc = "fakePVC 5368709120 [''discoblocks.io/diskconfig'']"
  let ?c1 = "fakeClient ?pvc ''322122547''"
  let ?c2 = "fakeClient ?pvc ''4831838209''"
  have s1: "(fakePod, fakeConfig, metricLine ''322122547'') \<in> set (cycleSamples ?c1)"
    by (simp add: fake_samples)
  have s2: "(fakePod, fakeConfig, metricLine ''4831838209'') \<in> set (cycleSamples ?c2)"
    by (simp add: fake_samples)
  have n1: "\<not> panicked (monitorCycle fakeUtils ?c1)"
    by (rule fake_not_panicked) (simp add: fake_sample_5Gi)
  have n2: "\<not> panicked (monitorCycle fakeUtils ?c2)"
    by (rule fake_not_panicked) (simp add: fake_sample_above)
  have cap: "Storage (pvc_Capacity ?pvc) = 5368709120" "pvc_Requests ?pvc = [''storage'' \<mapsto> 5368709120]"
    by (simp_all add: Storage_def fakePVC_def)
  have ne: "Storage (pvc_Capacity ?pvc) \<noteq> 10737418240"
    by (simp add: cap)
  have all: "\<forall>(pod', config', metric') \<in> set (cycleSamples ?c2). \<forall>r' available' maxCapacity'.
      resolveSample fakeUtils (GetPVC ?c2) pod' config' metric' =
        Inr (?pvc\<lparr>pvc_Requests := r'\<rparr>, available', maxCapacity') \<longrightarrow>
      fgt (treshold fakeUtils config' (Storage (pvc_Capacity ?pvc)))
        (fsub (AsApproximateFloat64 fakeUtils (Storage (pvc_Capacity ?pvc))) available')"
    using fake_fgt(2) [of "[''discoblocks.io/diskconfig'']"]
    by (simp add: fake_samples fake_resolve_above)
  have regime: "Storage (pvc_Capacity ?pvc) = of_int 5368709120 \<and> (0::int) \<le> 5368709120
      \<and> (5368709120::int) < 2 ^ 46
      \<and> AsApproximateFloat64 fakeUtils (of_int 5368709120) = Finite (of_int 5368709120)
      \<and> dc_UpscaleTriggerPercentage fakeConfig \<le> 100
      \<and> Finite 4831838209 = Finite (of_int 4831838209) \<and> \<bar>4831838209 :: int\<bar> < 2 ^ 52"
    by (simp add: cap fakeUtils_def fakeConfig_def round64_numeral)
  from C1_resize_decision [OF s1 fake_resolve fake_oneGi n1] fake_fgt(1) ne
  have "UpdatePVC (?pvc\<lparr>pvc_Requests := (pvc_Requests ?pvc)
        (''storage'' \<mapsto> min (Storage (pvc_Capacity ?pvc) + 2 ^ 30) 10737418240)\<rparr>)
      \<in> set (monitorCycle fakeUtils ?c1)"
    by blast
  moreover have "?pvc\<lparr>pvc_Requests := (pvc_Requests ?pvc)
        (''storage'' \<mapsto> min (Storage (pvc_Capacity ?pvc) + 2 ^ 30) 10737418240)\<rparr>
      = ?pvc\<lparr>pvc_Requests := [''storage'' \<mapsto> 6442450944]\<rparr>"
    by (simp add: cap)
  ultimately have a: "UpdatePVC (?pvc\<lparr>pvc_Requests := [''storage'' \<mapsto> 6442450944]\<rparr>)
      \<in> set (monitorCycle fakeUtils ?c1)"
    by simp
  from C1_resize_decision [OF s2 fake_resolve_above fake_oneGi n2] fake_fgt(2) all regime
  have b: "monitorSample fakeUtils (GetPVC ?c2) fakePod fakeConfig (metricLine ''4831838209'')
        = Continue ''Disk size ok''"
    and c: "\<forall>r. UpdatePVC (?pvc\<lparr>pvc_Requests := r\<rparr>) \<notin> set (monitorCycle fakeUtils ?c2)"
    and d: "fgt (treshold fakeUtils fakeConfig (Storage (pvc_Capacity ?pvc)))
        (fsub (AsApproximateFloat64 fakeUtils (Storage (pvc_Capacity ?pvc))) (Finite 4831838209))
      = (of_int 5368709120 - of_int 5368709120 * of_nat (dc_UpscaleTriggerPercentage fakeConfig) / 100
          < (of_int 4831838209 :: rat))"
    by blast+
  from d have d': "fgt (treshold fakeUtils fakeConfig 5368709120)
        (fsub (AsApproximateFloat64 fakeUtils 5368709120) (Finite 4831838209))
      = (5368709120 - 5368709120 * 10 / 100 < (4831838209 :: rat))"
    by (simp add: cap fakeConfig_def)
  from a b c d' show ?thesis by blast
qed

text \<open>
  C1 as stated fails at the boundary: with a capacity of 5Gi, a trigger percentage of
  10 and a maximum of 10Gi, the available bytes 4831838208 equal the capacity minus the
  threshold, and the cycle asks for 6Gi. On these whole numbers the \<^verbatim>\<open>float64\<close>
  operations are exact.
\<close>
theorem C1_counterexample:
  "Storage (pvc_Capacity (fakePVC 5368709120 [''discoblocks.io/diskconfig'']))
     - Storage (pvc_Capacity (fakePVC 5368709120 [''discoblocks.io/diskconfig'']))
         * of_nat (dc_UpscaleTriggerPercentage fakeConfig) / 100
     \<le> 4831838208
   \<and> cycleSamples (fakeClient (fakePVC 5368709120 [''discoblocks.io/diskconfig'']) ''4831838208'')
      = [(fakePod, fakeConfig, metricLine ''4831838208'')]
   \<and> resolveSample fakeUtils
        (GetPVC (fakeClient (fakePVC 5368709120 [''discoblocks.io/diskconfig'']) ''4831838208''))
        fakePod fakeConfig (metricLine ''4831838208'') =
      Inr (fakePVC 5368709120 [''discoblocks.io/diskconfig''], Finite 4831838208, 10737418240)
   \<and> monitorCycle fakeUtils
        (fakeClient (fakePVC 5368709120 [''discoblocks.io/diskconfig'']) ''4831838208'') =
      [UpdatePVC ((fakePVC 5368709120 [''discoblocks.io/diskconfig''])
         \<lparr>pvc_Requests := [''storage'' \<mapsto> 6442450944]\<rparr>)]"
proof -
  have "monitorSample fakeUtils
        (GetPVC (fakeClient (fakePVC 5368709120 [''discoblocks.io/diskconfig'']) ''4831838208''))
        fakePod fakeConfig (metricLine ''4831838208'') =
      UpdatePVC ((fakePVC 5368709120 [''discoblocks.io/diskconfig''])
         \<lparr>pvc_Requests := [''storage'' \<mapsto> 6442450944]\<rparr>)"
    unfolding monitorSample_def fake_resolve_boundary
    by (simp add: resizeDecision_def float_eval Storage_def Cmp_def fakePVC_def fakeConfig_def
        fakeUtils_def)
  then show ?thesis
    by (simp add: fake_samples fake_cycle fake_resolve_boundary)
      (simp add: Storage_def fakePVC_def fakeConfig_def)
qed

lemma same_claim:
  assumes "pvc\<lparr>pvc_Requests := r\<rparr> = pvc'\<lparr>pvc_Requests := r'\<rparr>"
  shows "pvc_Finalizers pvc' = pvc_Finalizers pvc" and "pvc_Capacity pvc' = pvc_Capacity pvc"
proof -
  from assms
  have "pvc_Finalizers (pvc\<lparr>pvc_Requests := r\<rparr>) = pvc_Finalizers (pvc'\<lparr>pvc_Requests := r'\<rparr>)"
    and "pvc_Capacity (pvc\<lparr>pvc_Requests := r\<rparr>) = pvc_Capacity (pvc'\<lparr>pvc_Requests := r'\<rparr>)"
    by simp_all
  then show "pvc_Finalizers pvc' = pvc_Finalizers pvc" and "pvc_Capacity pvc' = pvc_Capacity pvc"
    by simp_all
qed

text \<open>What a cycle knows of a claim it asks to update.\<close>
lemma monitorCycle_UpdatePVC:
  assumes "UpdatePVC (pvc\<lparr>pvc_Requests := r\<rparr>) \<in> set (monitorCycle u c)"
  obtains pod config metric available maxCapacity key where
    "(pod, config, metric) \<in> set (cycleSamples c)"
    "GetDiskConfig c key = Inr config"
    "ContainsFinalizer pvc (RenderFinalizer u (dc_Name config))"
    "ParseQuantity u (dc_MaximumCapacityOfDisk config) = Inr maxCapacity"
    "Storage (pvc_Capacity pvc) \<noteq> maxCapacity"
proof -
  from monitorCycle_sound [OF assms] obtain pod config metric
    where mem: "(pod, config, metric) \<in> set (cycleSamples c)"
      and upd: "monitorSample u (GetPVC c) pod config metric = UpdatePVC (pvc\<lparr>pvc_Requests := r\<rparr>)"
    by blast
  from upd obtain pvc' available maxCapacity
    where res: "resolveSample u (GetPVC c) pod config metric = Inr (pvc', available, maxCapacity)"
      and dec: "resizeDecision u config pvc' available maxCapacity = UpdatePVC (pvc\<lparr>pvc_Requests := r\<rparr>)"
    by (rule monitorSample_UpdatePVC)
  from resizeDecision_UpdatePVC(1) [OF dec]
  obtain r' where "pvc\<lparr>pvc_Requests := r\<rparr> = pvc'\<lparr>pvc_Requests := r'\<rparr>"
    by blast
  note same = same_claim [OF this]
  from mem obtain key where key: "GetDiskConfig c key = Inr config"
    by (auto simp add: cycleSamples_def podSamples_def configSamples_def
        split: sum.splits option.splits if_splits)
  from resolveSample_Inr(1) [OF res] same(1)
  have fin: "ContainsFinalizer pvc (RenderFinalizer u (dc_Name config))"
    by (simp add: ContainsFinalizer_def)
  from resizeDecision_UpdatePVC(2) [OF dec] same(2)
  have ne: "Storage (pvc_Capacity pvc) \<noteq> maxCapacity"
    by simp
  from mem key fin resolveSample_Inr(2) [OF res] ne show ?thesis
    by (rule that)
qed







text \<open>
  C3. A claim without the finalizer rendered from a configuration is never updated by
  a sample iteration of the monitor under that configuration, whatever the pod, the
  metric line and the answers of the API. A claim that carries the finalizer of no
  configuration of the cluster is updated by no monitor cycle. And for a claim without
  the finalizer rendered from its \<^verbatim>\<open>discoblocks\<close> label the event filter admits no event,
  so that the reconciler is never triggered for it.
\<close>
theorem C3_unmanaged_claim_untouched:
  "(\<not> ContainsFinalizer pvc (RenderFinalizer u (dc_Name config)) \<longrightarrow>
      (\<forall>g pod metric r. monitorSample u g pod config metric \<noteq> UpdatePVC (pvc\<lparr>pvc_Requests := r\<rparr>)))
   \<and> ((\<forall>key config'. GetDiskConfig c key = Inr config' \<longrightarrow>
          \<not> ContainsFinalizer pvc (RenderFinalizer u (dc_Name config'))) \<longrightarrow>
       (\<forall>r. UpdatePVC (pvc\<lparr>pvc_Requests := r\<rparr>) \<notin> set (monitorCycle u c)))
   \<and> (\<not> ContainsFinalizer pvc (RenderFinalizer u (index (pvc_Labels pvc) ''discoblocks'')) \<longrightarrow>
       \<not> pvcEventFilter u (CreateEvent (PVCObject pvc))
       \<and> (\<forall>old. \<not> pvcEventFilter u (UpdateEvent old (PVCObject pvc)))
       \<and> \<not> pvcEventFilter u (DeleteEvent (PVCObject pvc))
       \<and> \<not> pvcEventFilter u (GenericEvent (PVCObject pvc)))"
proof (intro conjI impI allI)
  fix g pod metric r
  assume nf: "\<not> ContainsFinalizer pvc (RenderFinalizer u (dc_Name config))"
  show "monitorSample u g pod config metric \<noteq> UpdatePVC (pvc\<lparr>pvc_Requests := r\<rparr>)"
  proof
    assume "monitorSample u g pod config metric = UpdatePVC (pvc\<lparr>pvc_Requests := r\<rparr>)"
    then obtain pvc' available maxCapacity
      where res: "resolveSample u g pod config metric = Inr (pvc', available, maxCapacity)"
        and dec: "resizeDecision u config pvc' available maxCapacity = UpdatePVC (pvc\<lparr>pvc_Requests := r\<rparr>)"
      by (rule monitorSample_UpdatePVC)
    from resizeDecision_UpdatePVC(1) [OF dec]
    obtain r' where "pvc\<lparr>pvc_Requests := r\<rparr> = pvc'\<lparr>pvc_Requests := r'\<rparr>"
      by blast
    from same_claim(1) [OF this] resolveSample_Inr(1) [OF res] nf show False
      by (simp add: ContainsFinalizer_def)
  qed
next
  fix r
  assume none: "\<forall>key config'. GetDiskConfig c key = Inr config' \<longrightarrow>
          \<not> ContainsFinalizer pvc (RenderFinalizer u (dc_Name config'))"
  show "UpdatePVC (pvc\<lparr>pvc_Requests := r\<rparr>) \<notin> set (monitorCycle u c)"
  proof
    assume "UpdatePVC (pvc\<lparr>pvc_Requests := r\<rparr>) \<in> set (monitorCycle u c)"
    then obtain config' key where "GetDiskConfig c key = Inr config'"
      "ContainsFinalizer pvc (RenderFinalizer u (dc_Name config'))"
      by (rule monitorCycle_UpdatePVC)
    with none show False by blast
  qed
qed (simp_all add: Create_def Update_def Delete_def Generic_def)

theorem C3_unmanaged_claim_untouched_witness:
  "(\<forall>g pod metric r. monitorSample fakeUtils g pod fakeConfig metric
        \<noteq> UpdatePVC ((fakePVC 5368709120 [])\<lparr>pvc_Requests := r\<rparr>))
   \<and> (\<forall>r. UpdatePVC ((fakePVC 5368709120 [])\<lparr>pvc_Requests := r\<rparr>)
         \<notin> set (monitorCycle fakeUtils (fakeClient (fakePVC 5368709120 []) ''322122547'')))
   \<and> monitorCycle fakeUtils (fakeClient (fakePVC 5368709120 []) ''322122547'')
      = [Continue ''PVC not managed by'']
   \<and> \<not> pvcEventFilter fakeUtils (CreateEvent (PVCObject (fakePVC 5368709120 [])))
   \<and> (\<forall>old. \<not> pvcEventFilter fakeUtils (UpdateEvent old (PVCObject (fakePVC 5368709120 []))))
   \<and> \<not> pvcEventFilter fakeUtils (DeleteEvent (PVCObject (fakePVC 5368709120 [])))
   \<and> \<not> pvcEventFilter fakeUtils (GenericEvent (PVCObject (fakePVC 5368709120 [])))"
proof -
  let ?pvc = "fakePVC 5368709120 []"
  let ?c = "fakeClient ?pvc ''322122547''"
  have a: "\<not> ContainsFinalizer ?pvc (RenderFinalizer fakeUtils (dc_Name fakeConfig))"
    by (simp add: ContainsFinalizer_def fakePVC_def)
  have b: "\<forall>key config'. GetDiskConfig ?c key = Inr config' \<longrightarrow>
          \<not> ContainsFinalizer ?pvc (RenderFinalizer fakeUtils (dc_Name config'))"
    by (simp add: ContainsFinalizer_def fakePVC_def)
  have l: "\<not> ContainsFinalizer ?pvc (RenderFinalizer fakeUtils (index (pvc_Labels ?pvc) ''discoblocks''))"
    by (simp add: ContainsFinalizer_def fakePVC_def)
  have cyc: "monitorCycle fakeUtils ?c = [Continue ''PVC not managed by'']"
    unfolding fake_cycle by (simp add: monitorSample_def sample_eval fake_defs)
  from C3_unmanaged_claim_untouched [of ?pvc fakeUtils fakeConfig ?c] a b l cyc
  show ?thesis by blast
qed

section \<open>Properties of the event filter\<close>

text \<open>
  C6, as the code has it. The filter admits a create event exactly when the claim
  carries the finalizer rendered from its label; it admits an update event exactly when
  the new object carries that finalizer and the old object has a deletion timestamp, or
  the new object has one, or the phase changed; it rejects every delete and every
  generic event.
\<close>
theorem C6_event_filter:
  "pvcEventFilter u (CreateEvent (PVCObject pvc)) =
     ContainsFinalizer pvc (RenderFinalizer u (index (pvc_Labels pvc) ''discoblocks''))
   \<and> pvcEventFilter u (UpdateEvent (PVCObject oldObj) (PVCObject newObj)) =
     (ContainsFinalizer newObj (RenderFinalizer u (index (pvc_Labels newObj) ''discoblocks''))
      \<and> \<not> (pvc_DeletionTimestamp oldObj = None \<and> pvc_DeletionTimestamp newObj = None
             \<and> pvc_Phase oldObj = pvc_Phase newObj))
   \<and> pvcEventFilter u (CreateEvent OtherObject) = False
   \<and> pvcEventFilter u (UpdateEvent obj OtherObject) = False
   \<and> pvcEventFilter u (UpdateEvent OtherObject obj) = False
   \<and> pvcEventFilter u (DeleteEvent obj) = False
   \<and> pvcEventFilter u (GenericEvent obj) = False"
  by (auto simp add: Create_def Update_def Delete_def Generic_def split: Object.splits)

theorem C6_event_filter_witness:
  "pvcEventFilter fakeUtils (CreateEvent (PVCObject (fakePVC 1 [''discoblocks.io/diskconfig''])))
   \<and> \<not> pvcEventFilter fakeUtils (CreateEvent (PVCObject (fakePVC 1 [])))
   \<and> pvcEventFilter fakeUtils
        (UpdateEvent (PVCObject ((fakePVC 1 [''discoblocks.io/diskconfig''])\<lparr>pvc_Phase := ''Pending''\<rparr>))
           (PVCObject (fakePVC 1 [''discoblocks.io/diskconfig''])))
   \<and> \<not> pvcEventFilter fakeUtils
        (UpdateEvent (PVCObject (fakePVC 1 [''discoblocks.io/diskconfig'']))
           (PVCObject (fakePVC 1 [''discoblocks.io/diskconfig''])))
   \<and> \<not> pvcEventFilter fakeUtils (DeleteEvent (PVCObject (fakePVC 1 [''discoblocks.io/diskconfig''])))
   \<and> \<not> pvcEventFilter fakeUtils (GenericEvent (PVCObject (fakePVC 1 [''discoblocks.io/diskconfig''])))"
  using C6_event_filter [of fakeUtils "fakePVC 1 [''discoblocks.io/diskconfig'']"
      "(fakePVC 1 [''discoblocks.io/diskconfig''])\<lparr>pvc_Phase := ''Pending''\<rparr>"
      "fakePVC 1 [''discoblocks.io/diskconfig'']" "PVCObject (fakePVC 1 [''discoblocks.io/diskconfig''])"]
    C6_event_filter [of fakeUtils "fakePVC 1 []"
      "fakePVC 1 [''discoblocks.io/diskconfig'']"
      "fakePVC 1 [''discoblocks.io/diskconfig'']" "PVCObject (fakePVC 1 [''discoblocks.io/diskconfig''])"]
  by (simp add: ContainsFinalizer_def index_def fakePVC_def fakeUtils_def)

text \<open>
  C6 as stated fails on an update that changes neither the deletion timestamp nor the
  phase of a claim that is being deleted: the filter admits it.
\<close>
theorem C6_counterexample:
  "pvc_DeletionTimestamp ((fakePVC 1 [''discoblocks.io/diskconfig''])\<lparr>pvc_DeletionTimestamp := Some 5\<rparr>) =
     pvc_DeletionTimestamp ((fakePVC 1 [''discoblocks.io/diskconfig''])
        \<lparr>pvc_DeletionTimestamp := Some 5, pvc_Requests := [''storage'' \<mapsto> 2]\<rparr>)
   \<and> pvc_Phase ((fakePVC 1 [''discoblocks.io/diskconfig''])\<lparr>pvc_DeletionTimestamp := Some 5\<rparr>) =
     pvc_Phase ((fakePVC 1 [''discoblocks.io/diskconfig''])
        \<lparr>pvc_DeletionTimestamp := Some 5, pvc_Requests := [''storage'' \<mapsto> 2]\<rparr>)
   \<and> pvcEventFilter fakeUtils
        (UpdateEvent
           (PVCObject ((fakePVC 1 [''discoblocks.io/diskconfig''])\<lparr>pvc_DeletionTimestamp := Some 5\<rparr>))
           (PVCObject ((fakePVC 1 [''discoblocks.io/diskconfig''])
              \<lparr>pvc_DeletionTimestamp := Some 5, pvc_Requests := [''storage'' \<mapsto> 2]\<rparr>)))"
  by (simp add: Update_def ContainsFinalizer_def index_def fakePVC_def fakeUtils_def)

section \<open>Properties of the gate\<close>

text \<open>
  C4, as the code has it. A reconcile tries the gate and never waits: when the gate is
  held it returns at once with a requeue request and no error, and leaves everything as
  it was; when the gate is free it takes it, runs, and has released it when it returns.
  A monitor cycle does not use the gate: it runs the same cycle whether the gate is
  held or not, and leaves the gate as it was.
\<close>
theorem C4_gate:
  "(gate w \<longrightarrow> Reconcile c req w = ((True, None), w))
   \<and> (\<not> gate w \<longrightarrow>
        Reconcile c req w =
          (fst (reconcileBody c req (w\<lparr>gate := True\<rparr>)),
           unlock (snd (reconcileBody c req (w\<lparr>gate := True\<rparr>))))
        \<and> \<not> gate (snd (Reconcile c req w)))
   \<and> MonitorVolumes u c (w\<lparr>gate := b\<rparr>) = (MonitorVolumes u c w)\<lparr>gate := b\<rparr>
   \<and> monitorTrace (MonitorVolumes u c w) = monitorTrace w @ monitorCycle u c"
proof (intro conjI impI)
  assume "gate w"
  then show "Reconcile c req w = ((True, None), w)"
    by (simp add: Reconcile_def controllerSemaphore_def)
next
  assume free: "\<not> gate w"
  then show r: "Reconcile c req w =
          (fst (reconcileBody c req (w\<lparr>gate := True\<rparr>)),
           unlock (snd (reconcileBody c req (w\<lparr>gate := True\<rparr>))))"
    by (simp add: Reconcile_def controllerSemaphore_def split_beta)
  show "\<not> gate (snd (Reconcile c req w))"
    unfolding r by (simp add: unlock_def)
next
  show "MonitorVolumes u c (w\<lparr>gate := b\<rparr>) = (MonitorVolumes u c w)\<lparr>gate := b\<rparr>"
    by (simp add: MonitorVolumes_def)
next
  show "monitorTrace (MonitorVolumes u c w) = monitorTrace w @ monitorCycle u c"
    by (simp add: MonitorVolumes_def)
qed


lemma fake_reconcileBody:
  "reconcileBody (fakeClient (fakePVC 1 [''discoblocks.io/diskconfig'']) []) (''default'', ''pvc-0'')
     \<lparr>gate = True, statusUpdates = [], monitorTrace = []\<rparr> =
   ((False, None),
    \<lparr>gate = True,
     statusUpdates = [fakeConfig\<lparr>dc_PersistentVolumeClaims := Some [''pvc-0'' \<mapsto> ''Bound'']\<rparr>],
     monitorTrace = []\<rparr>)"
proof -
  have pvc: "GetPVC (fakeClient (fakePVC 1 [''discoblocks.io/diskconfig'']) []) (''default'', ''pvc-0'')
      = Inr (fakePVC 1 [''discoblocks.io/diskconfig''])"
    by (simp add: fakeClient_def)
  have cfg: "GetDiskConfig (fakeClient (fakePVC 1 [''discoblocks.io/diskconfig'']) [])
      (pvc_Namespace (fakePVC 1 [''discoblocks.io/diskconfig'']),
       index (pvc_Labels (fakePVC 1 [''discoblocks.io/diskconfig''])) ''discoblocks'') = Inr fakeConfig"
    by (simp add: fakeClient_def fakePVC_def index_def)
  have mir: "mirrorStatus (fakePVC 1 [''discoblocks.io/diskconfig'']) fakeConfig
      = fakeConfig\<lparr>dc_PersistentVolumeClaims := Some [''pvc-0'' \<mapsto> ''Bound'']\<rparr>"
    by (simp add: mirrorStatus_def fakePVC_def fakeConfig_def)
  have upd: "StatusUpdate (fakeClient (fakePVC 1 [''discoblocks.io/diskconfig'']) []) x = None" for x
    by (simp add: fakeClient_def)
  show ?thesis
    by (simp add: reconcileBody_def pvc cfg mir upd Let_def)
qed

theorem C4_gate_witness:
  "Reconcile (fakeClient (fakePVC 1 [''discoblocks.io/diskconfig'']) []) (''default'', ''pvc-0'')
     \<lparr>gate = True, statusUpdates = [], monitorTrace = []\<rparr> =
   ((True, None), \<lparr>gate = True, statusUpdates = [], monitorTrace = []\<rparr>)
   \<and> Reconcile (fakeClient (fakePVC 1 [''discoblocks.io/diskconfig'']) []) (''default'', ''pvc-0'')
     \<lparr>gate = False, statusUpdates = [], monitorTrace = []\<rparr> =
   ((False, None),
    \<lparr>gate = False,
     statusUpdates = [fakeConfig\<lparr>dc_PersistentVolumeClaims := Some [''pvc-0'' \<mapsto> ''Bound'']\<rparr>],
     monitorTrace = []\<rparr>)"
proof -
  let ?c = "fakeClient (fakePVC 1 [''discoblocks.io/diskconfig'']) []"
  from C4_gate [of "\<lparr>gate = True, statusUpdates = [], monitorTrace = []\<rparr>" ?c "(''default'', ''pvc-0'')"]
  have a: "Reconcile ?c (''default'', ''pvc-0'') \<lparr>gate = True, statusUpdates = [], monitorTrace = []\<rparr> =
      ((True, None), \<lparr>gate = True, statusUpdates = [], monitorTrace = []\<rparr>)"
    by simp
  from C4_gate [of "\<lparr>gate = False, statusUpdates = [], monitorTrace = []\<rparr>" ?c "(''default'', ''pvc-0'')"]
  have "Reconcile ?c (''default'', ''pvc-0'') \<lparr>gate = False, statusUpdates = [], monitorTrace = []\<rparr> =
      (fst (reconcileBody ?c (''default'', ''pvc-0'') \<lparr>gate = True, statusUpdates = [], monitorTrace = []\<rparr>),
       unlock (snd (reconcileBody ?c (''default'', ''pvc-0'')
          \<lparr>gate = True, statusUpdates = [], monitorTrace = []\<rparr>)))"
    by simp
  then have b: "Reconcile ?c (''default'', ''pvc-0'') \<lparr>gate = False, statusUpdates = [], monitorTrace = []\<rparr> =
      ((False, None),
       \<lparr>gate = False,
        statusUpdates = [fakeConfig\<lparr>dc_PersistentVolumeClaims := Some [''pvc-0'' \<mapsto> ''Bound'']\<rparr>],
        monitorTrace = []\<rparr>)"
    unfolding fake_reconcileBody by (simp add: unlock_def)
  from a b show ?thesis by (rule conjI)
qed

text \<open>
  C4 as stated fails: a reconcile takes the free gate, and a monitor cycle that starts
  while the gate is held neither reports busy nor skips its cycle; it asks for a resize.
\<close>
theorem C4_counterexample:
  "fst (controllerSemaphore \<lparr>gate = False, statusUpdates = [], monitorTrace = []\<rparr>)
   \<and> gate (snd (controllerSemaphore \<lparr>gate = False, statusUpdates = [], monitorTrace = []\<rparr>))
   \<and> monitorTrace
        (MonitorVolumes fakeUtils
           (fakeClient (fakePVC 5368709120 [''discoblocks.io/diskconfig'']) ''322122547'')
           (snd (controllerSemaphore \<lparr>gate = False, statusUpdates = [], monitorTrace = []\<rparr>))) =
      [UpdatePVC ((fakePVC 5368709120 [''discoblocks.io/diskconfig''])
         \<lparr>pvc_Requests := [''storage'' \<mapsto> 6442450944]\<rparr>)]"
  by (simp add: controllerSemaphore_def MonitorVolumes_def fake_cycle fake_sample_5Gi)

section \<open>Properties of the host jobs\<close>












section \<open>Properties of the driver of \<^verbatim>\<open>ebs.csi.aws.com\<close>\<close>













end
